theory Spec2Isabelle
  imports
    Complex_Main
    "HOL-Library.Multiset"
    "HOL-Library.AList"
    "HOL-Library.Product_Lexorder"
    "HOL-Library.List_Lexorder"
begin

section \<open>Values, vectors and matrices\<close>

text \<open>
  The module \<^verbatim>\<open>gltf2_blender_extract.py\<close> works on numpy arrays of \<^verbatim>\<open>float32\<close> and
  \<^verbatim>\<open>uint32\<close>. Floating-point numbers are modelled by \<^typ>\<open>real\<close> (no rounding, no NaN),
  unsigned indices by \<^typ>\<open>nat\<close> (mesh sizes stay far below \<open>2^32\<close>). A row of an
  \<open>n \<times> 3\<close> array is a triple, an array is the list of its rows.

  Exceptions are values: a function that can raise returns \<open>error + 'a\<close>.
  \<^verbatim>\<open>IndexError\<close> is numpy's and Python's out-of-range index, \<^verbatim>\<open>ValueError\<close> is what
  \<^verbatim>\<open>Matrix.inverted()\<close> of the host's \<^verbatim>\<open>mathutils\<close> raises on a singular matrix.
\<close>

datatype error = IndexError | ValueError

type_synonym vec2 = "real \<times> real"
type_synonym vec3 = "real \<times> real \<times> real"
type_synonym vec4 = "real \<times> real \<times> real \<times> real"

text \<open>A 3x3 matrix is the triple of its rows. A 4x4 object matrix is affine: its linear
  3x3 block and its translation column (the last row is \<open>(0, 0, 0, 1)\<close>).\<close>

type_synonym mat3 = "vec3 \<times> vec3 \<times> vec3"
type_synonym mat4 = "mat3 \<times> vec3"

datatype matrix = Mat3 mat3 | Mat4 mat4

fun vadd :: "vec3 \<Rightarrow> vec3 \<Rightarrow> vec3" where
  "vadd (a, b, c) (x, y, z) = (a + x, b + y, c + z)"

fun vsub :: "vec3 \<Rightarrow> vec3 \<Rightarrow> vec3" where
  "vsub (a, b, c) (x, y, z) = (a - x, b - y, c - z)"

fun dot3 :: "vec3 \<Rightarrow> vec3 \<Rightarrow> real" where
  "dot3 (a, b, c) (x, y, z) = a * x + b * y + c * z"

fun transposed :: "mat3 \<Rightarrow> mat3" where
  "transposed ((a, b, c), (d, e, f), (g, h, i)) = ((a, d, g), (b, e, h), (c, f, i))"

text \<open>\<^verbatim>\<open>np.matmul(v, m)\<close> for a row vector: the dot products with the columns of \<open>m\<close>.\<close>

definition vec_matmul :: "vec3 \<Rightarrow> mat3 \<Rightarrow> vec3" where
  "vec_matmul v m = (case transposed m of (c1, c2, c3) \<Rightarrow> (dot3 v c1, dot3 v c2, dot3 v c3))"

text \<open>The matrix product \<^verbatim>\<open>a @ b\<close> of \<^verbatim>\<open>mathutils\<close>, on 3x3 and on affine 4x4 matrices.\<close>

definition mat_mul3 :: "mat3 \<Rightarrow> mat3 \<Rightarrow> mat3" where
  "mat_mul3 a b = (case a of (r1, r2, r3) \<Rightarrow> (vec_matmul r1 b, vec_matmul r2 b, vec_matmul r3 b))"

definition mat_vec :: "mat3 \<Rightarrow> vec3 \<Rightarrow> vec3" where
  "mat_vec m v = (case m of (r1, r2, r3) \<Rightarrow> (dot3 r1 v, dot3 r2 v, dot3 r3 v))"

definition mat_mul4 :: "mat4 \<Rightarrow> mat4 \<Rightarrow> mat4" where
  "mat_mul4 a b = (mat_mul3 (fst a) (fst b), vadd (mat_vec (fst a) (snd b)) (snd a))"

fun determinant :: "mat3 \<Rightarrow> real" where
  "determinant ((a, b, c), (d, e, f), (g, h, i)) =
     a * (e * i - f * h) - b * (d * i - f * g) + c * (d * h - e * g)"

text \<open>\<^verbatim>\<open>Matrix.inverted()\<close>: the inverse, or \<^verbatim>\<open>ValueError\<close> (here \<open>None\<close>) when the matrix
  has none.\<close>

fun inverted3 :: "mat3 \<Rightarrow> mat3 option" where
  "inverted3 ((a, b, c), (d, e, f), (g, h, i)) =
     (let dt = determinant ((a, b, c), (d, e, f), (g, h, i)) in
      if dt = 0 then None
      else Some (((e * i - f * h) / dt, (c * h - b * i) / dt, (b * f - c * e) / dt),
                 ((f * g - d * i) / dt, (a * i - c * g) / dt, (c * d - a * f) / dt),
                 ((d * h - e * g) / dt, (b * g - a * h) / dt, (a * e - b * d) / dt)))"

definition inverted4 :: "mat4 \<Rightarrow> mat4 option" where
  "inverted4 m =
     (case inverted3 (fst m) of
        None \<Rightarrow> None
      | Some li \<Rightarrow> Some (li, vsub (0, 0, 0) (mat_vec li (snd m))))"

definition to_3x3 :: "mat4 \<Rightarrow> mat3" where
  "to_3x3 m = fst m"

definition translation :: "mat4 \<Rightarrow> vec3" where
  "translation m = snd m"

text \<open>The quaternion and rotation routines of \<^verbatim>\<open>mathutils\<close> are parameters of the model:
  \<^verbatim>\<open>m.to_quaternion().to_matrix()\<close> and, for the morph tangents,
  \<^verbatim>\<open>a.rotation_difference(b)\<close> and \<^verbatim>\<open>v.rotate(q)\<close>.\<close>

record mathutils =
  to_quaternion_to_matrix :: "mat4 \<Rightarrow> mat3"
  rotation_difference :: "vec3 \<Rightarrow> vec3 \<Rightarrow> vec4"
  rotate :: "vec3 \<Rightarrow> vec4 \<Rightarrow> vec3"

subsection \<open>numpy\<close>

text \<open>Fancy indexing \<^verbatim>\<open>arr[idxs]\<close>: the rows at the given indices; an index out of range
  raises \<^verbatim>\<open>IndexError\<close>.\<close>

definition take_rows :: "'a list \<Rightarrow> nat list \<Rightarrow> error + 'a list" where
  "take_rows arr idxs =
     (if list_all (\<lambda>i. i < length arr) idxs then Inr (map (\<lambda>i. arr ! i) idxs)
      else Inl IndexError)"

primrec index_of :: "'a \<Rightarrow> 'a list \<Rightarrow> nat" where
  "index_of x [] = 0"
| "index_of x (y # ys) = (if x = y then 0 else Suc (index_of x ys))"

text \<open>\<^verbatim>\<open>np.unique(ar)\<close> is the sorted array of the distinct elements of \<open>ar\<close>: numpy sorts
  \<open>ar\<close> and keeps each element that differs from its predecessor. A structured array is
  sorted lexicographically, field by field in the order of the dtype.
  \<^verbatim>\<open>np.unique(ar, return_inverse=True)\<close> also returns, for every position of \<open>ar\<close>, the
  index of its element in the sorted array.\<close>

definition np_unique :: "'a::linorder list \<Rightarrow> 'a list" where
  "np_unique ar = remdups_adj (sort ar)"

definition np_unique_inverse :: "'a::linorder list \<Rightarrow> 'a list \<times> nat list" where
  "np_unique_inverse ar = (let u = np_unique ar in (u, map (\<lambda>x. index_of x u) ar))"

text \<open>\<^verbatim>\<open>np.repeat(a, 3)\<close>.\<close>

definition np_repeat3 :: "'a list \<Rightarrow> 'a list" where
  "np_repeat3 a = concat (map (\<lambda>x. [x, x, x]) a)"

text \<open>Boolean-mask indexing \<^verbatim>\<open>a[mask]\<close>, the mask being \<^verbatim>\<open>keys == k\<close>.\<close>

definition mask_eq :: "'a list \<Rightarrow> 'k list \<Rightarrow> 'k \<Rightarrow> 'a list" where
  "mask_eq a keys k = map fst (filter (\<lambda>p. snd p = k) (zip a keys))"

section \<open>The host's data\<close>

text \<open>
  The mesh as the module reads it from Blender. A per-vertex or per-corner layer (a UV
  layer, a colour layer, the coordinates and split normals of a shape key, a face map) is
  a function of the vertex, corner or polygon index: \<^verbatim>\<open>foreach_get\<close> reads it at every
  index of the mesh, so a layer always has as many entries as the mesh has vertices,
  corners or polygons.
\<close>

record group_element =
  group :: nat
  weight :: real

record vertex =
  co :: vec3
  groups :: "group_element list"

record loop =
  vertex_index :: nat
  normal :: vec3
  tangent :: vec3
  bitangent_sign :: real

record loop_triangle =
  tri_loops :: "nat \<times> nat \<times> nat"
  material_index :: nat

record polygon =
  loop_start :: nat
  loop_total :: nat

text \<open>A shape key: \<open>kb_skipped\<close> is the test
  \<^verbatim>\<open>key_block == key_block.relative_key or key_block.mute\<close>.\<close>

record key_block =
  kb_co :: "nat \<Rightarrow> vec3"
  kb_normals_split :: "nat \<Rightarrow> vec3"
  kb_skipped :: bool

text \<open>\<open>uv_layers_active\<close> is the truth value of \<^verbatim>\<open>uv_layers.active\<close>, \<open>calc_tangents_ok\<close>
  says that \<^verbatim>\<open>calc_tangents()\<close> returns without an exception, and \<open>shape_keys\<close> is
  \<^verbatim>\<open>shape_keys.key_blocks\<close> (\<open>None\<close> when the mesh has no shape keys).\<close>

record mesh =
  vertices :: "vertex list"
  loops :: "loop list"
  loop_triangles :: "loop_triangle list"
  polygons :: "polygon list"
  uv_layers :: "(nat \<Rightarrow> vec2) list"
  uv_layers_active :: bool
  calc_tangents_ok :: bool
  vertex_colors :: "(nat \<Rightarrow> vec4) list"
  shape_keys :: "key_block list option"
  face_maps :: "(nat \<Rightarrow> real) list"

text \<open>An object of the scene: the exported object itself, or an armature (with the names
  of its bones). \<open>parent_name\<close> is \<^verbatim>\<open>parent.name\<close>, read only when \<open>parent_type\<close> is
  \<^verbatim>\<open>"BONE"\<close>.\<close>

record blender_object =
  ob_name :: string
  ob_type :: string
  matrix_world :: mat4
  parent_type :: string
  parent_name :: string
  bone_names :: "string list"

record modifier =
  mod_type :: string
  mod_object :: "blender_object option"
  use_vertex_groups :: bool

text \<open>The skin that \<^verbatim>\<open>gather_skin\<close> builds (another module): the names of its joints, in
  order.\<close>

record skin =
  joints :: "string list"

datatype materials_mode = NONE | EXPORT | PLACEHOLDER

record export_settings =
  NORMALS :: bool
  TANGENTS :: bool
  TEX_COORDS :: bool
  COLORS :: bool
  SKINS :: bool
  MORPH :: bool
  MORPH_NORMAL :: bool
  MORPH_TANGENT :: bool
  MATERIALS :: materials_mode
  YUP :: bool

text \<open>A mesh is well formed when every corner names a vertex of the mesh, every triangle
  names corners of the mesh, every polygon covers corners of the mesh and every corner
  belongs to a polygon. Blender keeps its meshes so.\<close>

definition wf_mesh :: "mesh \<Rightarrow> bool" where
  "wf_mesh m \<longleftrightarrow>
     list_all (\<lambda>l. vertex_index l < length (vertices m)) (loops m) \<and>
     list_all (\<lambda>t. case tri_loops t of (a, b, c) \<Rightarrow>
                      a < length (loops m) \<and> b < length (loops m) \<and> c < length (loops m))
              (loop_triangles m) \<and>
     list_all (\<lambda>p. loop_start p + loop_total p \<le> length (loops m)) (polygons m) \<and>
     list_all (\<lambda>i. list_ex (\<lambda>p. loop_start p \<le> i \<and> i < loop_start p + loop_total p)
                            (polygons m))
              [0..<length (loops m)]"

text \<open>\<^verbatim>\<open>foreach_get\<close> on a layer: its value at each of the \<open>n\<close> indices.\<close>

definition foreach_get :: "(nat \<Rightarrow> 'a) \<Rightarrow> nat \<Rightarrow> 'a list" where
  "foreach_get layer n = map layer [0..<n]"

section \<open>Space and skin transform\<close>

text \<open>\<^verbatim>\<open>__zup2yup\<close>: columns 1 and 2 are swapped, then column 2 is multiplied by \<open>-1\<close>.\<close>

definition zup2yup :: "vec3 list \<Rightarrow> vec3 list" where
  "zup2yup array =
     map (\<lambda>(x, z, y). (x, z, y * (- 1))) (map (\<lambda>(x, y, z). (x, z, y)) array)"

text \<open>\<^verbatim>\<open>__apply_mat_to_all\<close>: \<^verbatim>\<open>len(matrix) == 4\<close> holds for a 4x4 matrix.\<close>

definition apply_mat_to_all :: "matrix \<Rightarrow> vec3 list \<Rightarrow> vec3 list" where
  "apply_mat_to_all mtx vectors =
     (let m = (case mtx of Mat4 m4 \<Rightarrow> to_3x3 m4 | Mat3 m3 \<Rightarrow> m3);
          res = map (\<lambda>v. vec_matmul v (transposed m)) vectors
      in case mtx of
           Mat4 m4 \<Rightarrow> map (\<lambda>r. vadd r (translation m4)) res
         | Mat3 m3 \<Rightarrow> res)"

fun linalg_norm :: "vec3 \<Rightarrow> real" where
  "linalg_norm (x, y, z) = sqrt (x * x + y * y + z * z)"

text \<open>\<^verbatim>\<open>__normalize_vecs\<close>: each row is divided by its norm where the norm is not zero.\<close>

definition normalize_vecs :: "vec3 list \<Rightarrow> vec3 list" where
  "normalize_vecs vectors =
     map (\<lambda>v. let norm_v = linalg_norm v in
               if norm_v \<noteq> 0 then (case v of (x, y, z) \<Rightarrow> (x / norm_v, y / norm_v, z / norm_v))
               else v) vectors"

text \<open>\<^verbatim>\<open>__get_positions\<close>. The product \<^verbatim>\<open>armature.matrix_world @ apply_matrix\<close> is
  computed and then overwritten by the object's matrix; the inversion it needs can
  still raise.\<close>

definition get_positions ::
  "mesh \<Rightarrow> key_block list \<Rightarrow> blender_object option \<Rightarrow> blender_object option \<Rightarrow>
   export_settings \<Rightarrow> error + (vec3 list \<times> vec3 list list)" where
  "get_positions blender_mesh key_blocks armature blender_object export_settings =
     (let n = length (vertices blender_mesh);
          locs = map co (vertices blender_mesh);
          morph_locs = map (\<lambda>key_block. foreach_get (kb_co key_block) n) key_blocks
      in case (case (armature, blender_object) of
                 (Some arm, Some ob) \<Rightarrow>
                   (case inverted4 (matrix_world arm) of
                      None \<Rightarrow> Inl ValueError
                    | Some arm_inv \<Rightarrow>
                        let loc_transform = matrix_world ob in
                        Inr (apply_mat_to_all (Mat4 loc_transform) locs,
                             map (apply_mat_to_all (Mat4 loc_transform)) morph_locs))
               | _ \<Rightarrow> Inr (locs, morph_locs)) of
           Inl e \<Rightarrow> Inl e
         | Inr (locs1, morph_locs1) \<Rightarrow>
             let morph_locs2 = map (\<lambda>vs. map2 vsub vs locs1) morph_locs1 in
             if YUP export_settings then Inr (zup2yup locs1, map zup2yup morph_locs2)
             else Inr (locs1, morph_locs2))"

text \<open>Rows with no non-zero component get \<open>1\<close> in column 2.\<close>

definition replace_zero_normals :: "vec3 list \<Rightarrow> vec3 list" where
  "replace_zero_normals ns =
     map (\<lambda>(x, y, z). let is_zero = \<not> (x \<noteq> 0 \<or> y \<noteq> 0 \<or> z \<noteq> 0) in
                       if is_zero then (x, y, 1) else (x, y, z)) ns"

text \<open>\<^verbatim>\<open>__get_normals\<close>.\<close>

definition get_normals ::
  "mesh \<Rightarrow> key_block list \<Rightarrow> blender_object option \<Rightarrow> blender_object option \<Rightarrow>
   export_settings \<Rightarrow> error + (vec3 list \<times> vec3 list list)" where
  "get_normals blender_mesh key_blocks armature blender_object export_settings =
     (let n = length (loops blender_mesh);
          normals = map normal (loops blender_mesh);
          morph_normals = map (\<lambda>key_block. foreach_get (kb_normals_split key_block) n) key_blocks
      in case (case (armature, blender_object) of
                 (Some arm, Some ob) \<Rightarrow>
                   (case inverted4 (matrix_world arm) of
                      None \<Rightarrow> Inl ValueError
                    | Some arm_inv \<Rightarrow>
                        (case inverted3 (to_3x3 (mat_mul4 arm_inv (matrix_world ob))) of
                           None \<Rightarrow> Inl ValueError
                         | Some inv3 \<Rightarrow>
                             let apply_matrix = transposed inv3;
                                 normal_transform =
                                   mat_mul3 (to_3x3 (matrix_world arm)) apply_matrix
                             in Inr (normalize_vecs
                                       (apply_mat_to_all (Mat3 normal_transform) normals),
                                     map (\<lambda>ns. normalize_vecs
                                                 (apply_mat_to_all (Mat3 normal_transform) ns))
                                         morph_normals)))
               | _ \<Rightarrow> Inr (normals, morph_normals)) of
           Inl e \<Rightarrow> Inl e
         | Inr (normals1, morph_normals1) \<Rightarrow>
             let normals2 = replace_zero_normals normals1;
                 morph_normals2 = map replace_zero_normals morph_normals1;
                 morph_normals3 = map (\<lambda>ns. map2 vsub ns normals2) morph_normals2
             in if YUP export_settings then Inr (zup2yup normals2, map zup2yup morph_normals3)
                else Inr (normals2, morph_normals3))"

text \<open>\<^verbatim>\<open>__get_tangents\<close>.\<close>

definition get_tangents ::
  "mathutils \<Rightarrow> mesh \<Rightarrow> blender_object option \<Rightarrow> blender_object option \<Rightarrow>
   export_settings \<Rightarrow> error + vec3 list" where
  "get_tangents mu blender_mesh armature blender_object export_settings =
     (let tangents = map tangent (loops blender_mesh)
      in case (case (armature, blender_object) of
                 (Some arm, Some ob) \<Rightarrow>
                   (case inverted4 (matrix_world arm) of
                      None \<Rightarrow> Inl ValueError
                    | Some arm_inv \<Rightarrow>
                        let apply_matrix = mat_mul4 arm_inv (matrix_world ob);
                            tangent_transform = to_quaternion_to_matrix mu apply_matrix
                        in Inr (normalize_vecs
                                  (apply_mat_to_all (Mat3 tangent_transform) tangents)))
               | _ \<Rightarrow> Inr tangents) of
           Inl e \<Rightarrow> Inl e
         | Inr tangents1 \<Rightarrow>
             if YUP export_settings then Inr (zup2yup tangents1) else Inr tangents1)"

text \<open>\<^verbatim>\<open>__get_bitangent_signs\<close>. The export settings are an argument and are not read.\<close>

definition get_bitangent_signs ::
  "mathutils \<Rightarrow> mesh \<Rightarrow> blender_object option \<Rightarrow> blender_object option \<Rightarrow>
   export_settings \<Rightarrow> error + real list" where
  "get_bitangent_signs mu blender_mesh armature blender_object export_settings =
     (let signs = map bitangent_sign (loops blender_mesh)
      in case (armature, blender_object) of
           (Some arm, Some ob) \<Rightarrow>
             (case inverted4 (matrix_world arm) of
                None \<Rightarrow> Inl ValueError
              | Some arm_inv \<Rightarrow>
                  let apply_matrix = mat_mul4 arm_inv (matrix_world ob);
                      tangent_transform = to_quaternion_to_matrix mu apply_matrix;
                      flipped = (determinant tangent_transform < 0)
                  in if flipped then Inr (map (\<lambda>s. s * (- 1)) signs) else Inr signs)
         | _ \<Rightarrow> Inr signs)"

text \<open>\<^verbatim>\<open>__calc_morph_tangents\<close>.\<close>

definition calc_morph_tangents ::
  "mathutils \<Rightarrow> vec3 list \<Rightarrow> vec3 list \<Rightarrow> vec4 list \<Rightarrow> vec3 list" where
  "calc_morph_tangents mu normals morph_normal_deltas tangents =
     map (\<lambda>i. let n = normals ! i;
                   morph_n = vadd n (morph_normal_deltas ! i);
                   t = (case tangents ! i of (tx, ty, tz, tw) \<Rightarrow> (tx, ty, tz));
                   rotation = rotation_difference mu morph_n n;
                   t_morph = rotate mu t rotation
               in vsub t_morph t) [0..<length normals]"

section \<open>Attribute sampler\<close>

text \<open>\<^verbatim>\<open>__get_uvs\<close>: column 1 is multiplied by \<open>-1\<close>, then \<open>1\<close> is added.
  \<^verbatim>\<open>uv_layers[uv_i]\<close> raises \<^verbatim>\<open>IndexError\<close> when there is no such layer.\<close>

definition get_uvs :: "mesh \<Rightarrow> nat \<Rightarrow> error + vec2 list" where
  "get_uvs blender_mesh uv_i =
     (if uv_i < length (uv_layers blender_mesh) then
        let layer = uv_layers blender_mesh ! uv_i;
            uvs = foreach_get layer (length (loops blender_mesh))
        in Inr (map (\<lambda>(u, v). (u, v * (- 1) + 1)) uvs)
      else Inl IndexError)"

text \<open>The conversion of one colour channel in \<^verbatim>\<open>__get_colors\<close>: the two candidate
  results and the choice between them by \<^verbatim>\<open>np.where\<close>.\<close>

definition srgb_to_linear :: "real \<Rightarrow> real" where
  "srgb_to_linear c =
     (let not_small = (c \<ge> 0.04045);
          small_result = (if c < 0.0 then 0.0 else c * (1.0 / 12.92));
          large_result = ((c + 0.055) * (1.0 / 1.055)) powr 2.4
      in if not_small then large_result else small_result)"

text \<open>\<^verbatim>\<open>__get_colors\<close>: \<^verbatim>\<open>rgb = colors[:, :-1]\<close> is a view of the first three columns.\<close>

definition get_colors :: "mesh \<Rightarrow> nat \<Rightarrow> error + vec4 list" where
  "get_colors blender_mesh color_i =
     (if color_i < length (vertex_colors blender_mesh) then
        let layer = vertex_colors blender_mesh ! color_i;
            colors = foreach_get layer (length (loops blender_mesh))
        in Inr (map (\<lambda>(r, g, b, a). (srgb_to_linear r, srgb_to_linear g, srgb_to_linear b, a))
                    colors)
      else Inl IndexError)"

text \<open>\<^verbatim>\<open>__get_extra_vgroups\<close>. The result is a dictionary from the group's name to its
  weights; \<open>AList.update\<close> is the assignment \<^verbatim>\<open>d[k] = v\<close>.\<close>

definition get_extra_vgroups ::
  "mesh \<Rightarrow> modifier list option \<Rightarrow> string list \<Rightarrow> (string \<times> real list) list" where
  "get_extra_vgroups blender_mesh modifiers blender_vertex_groups =
     (if blender_vertex_groups = [] then []
      else
        let skinning_vgroup_names =
              concat (map (\<lambda>m. if mod_type m = ''ARMATURE'' \<and> use_vertex_groups m then
                                  (case mod_object m of
                                     Some ob \<Rightarrow> if ob_type ob = ''ARMATURE'' then bone_names ob else []
                                   | None \<Rightarrow> [])
                                else [])
                          (case modifiers of None \<Rightarrow> [] | Some ms \<Rightarrow> ms))
        in if length (remdups skinning_vgroup_names) = length blender_vertex_groups then []
           else fold (\<lambda>(i, vgroup) vgroup_weights.
                        if vgroup \<in> set skinning_vgroup_names then vgroup_weights
                        else AList.update vgroup
                               (map (\<lambda>v. case find (\<lambda>vge. group vge = i) (groups v) of
                                            None \<Rightarrow> 0.0
                                          | Some vge \<Rightarrow> weight vge)
                                    (vertices blender_mesh))
                               vgroup_weights)
                     (enumerate 0 blender_vertex_groups) [])"

text \<open>The dictionary \<^verbatim>\<open>joint_name_to_index\<close> of \<^verbatim>\<open>__get_bone_data\<close>: a later joint of the
  same name overwrites an earlier one.\<close>

definition joint_name_to_index :: "string list \<Rightarrow> (string \<rightharpoonup> nat)" where
  "joint_name_to_index names =
     fold (\<lambda>(index, joint_name) d. d(joint_name \<mapsto> index)) (enumerate 0 names) Map.empty"

text \<open>The body of the loop over the vertices in \<^verbatim>\<open>__get_bone_data\<close>: the (joint, weight)
  pairs of one vertex. An influence is dropped when its weight is not positive, when
  \<^verbatim>\<open>group_to_joint[group]\<close> raises or when the group has no joint. The sort is stable and
  descending in the weight.\<close>

definition vertex_bones :: "nat option list \<Rightarrow> vertex \<Rightarrow> (nat \<times> real) list" where
  "vertex_bones group_to_joint v =
     (let bones =
            concat (map (\<lambda>group_element.
                           if weight group_element \<le> 0.0 then []
                           else if group group_element < length group_to_joint then
                             (case group_to_joint ! group group_element of
                                None \<Rightarrow> []
                              | Some joint \<Rightarrow> [(joint, weight group_element)])
                           else [])
                        (groups v));
          sorted_bones = sort_key (\<lambda>x. - snd x) bones
      in if sorted_bones = [] then [(0, 1.0)] else sorted_bones)"

text \<open>\<^verbatim>\<open>__get_bone_data\<close>.\<close>

definition get_bone_data ::
  "mesh \<Rightarrow> skin \<Rightarrow> string list \<Rightarrow> (nat \<times> real) list list \<times> nat" where
  "get_bone_data blender_mesh skn blender_vertex_groups =
     (let group_to_joint = map (joint_name_to_index (joints skn)) blender_vertex_groups;
          vert_bones = map (vertex_bones group_to_joint) (vertices blender_mesh);
          max_num_influences =
            fold (\<lambda>bones mx. if length bones > mx then length bones else mx) vert_bones 0;
          num_joint_sets = (max_num_influences + 3) div 4
      in (vert_bones, num_joint_sets))"

text \<open>\<^verbatim>\<open>__get_facemaps\<close>: the polygon of every corner, then the value of the first face map
  at that polygon. Writing \<^verbatim>\<open>loop_polyidx[i]\<close> past the end and reading \<^verbatim>\<open>poly_facemap\<close>
  past the end raise \<^verbatim>\<open>IndexError\<close>, and so does \<^verbatim>\<open>face_maps[0]\<close> without a face map.\<close>

definition get_facemaps :: "mesh \<Rightarrow> error + real list" where
  "get_facemaps blender_mesh =
     (case face_maps blender_mesh of
        [] \<Rightarrow> Inl IndexError
      | fm # _ \<Rightarrow>
          let n = length (loops blender_mesh);
              poly_facemap = foreach_get fm (length (polygons blender_mesh))
          in if list_all (\<lambda>poly. loop_total poly = 0 \<or> loop_start poly + loop_total poly \<le> n)
                         (polygons blender_mesh)
             then take_rows poly_facemap
                    (fold (\<lambda>(polyi, poly) loop_polyidx.
                             fold (\<lambda>i arr. arr[i := polyi])
                                  [loop_start poly ..< loop_start poly + loop_total poly]
                                  loop_polyidx)
                          (enumerate 0 (polygons blender_mesh)) (replicate n 0))
             else Inl IndexError)"

section \<open>Corner records\<close>

text \<open>
  The "dot" of a corner: the vertex index followed by the per-corner attributes that are
  exported, in the order of \<^verbatim>\<open>dot_fields\<close>: the normal, the tangent with the bitangent
  sign, one UV pair per UV layer, one colour per colour layer, one normal delta per morph
  target, the face-map value. A group of fields that is not exported is the empty list.
  The order on dots is lexicographic, field by field, as numpy compares the records of a
  structured array.
\<close>

type_synonym dot =
  "nat \<times> vec3 list \<times> vec4 list \<times> vec2 list \<times> vec4 list \<times> vec3 list \<times> real list"

definition dot_vertex_index :: "dot \<Rightarrow> nat" where
  "dot_vertex_index d = fst d"

definition dot_normal :: "dot \<Rightarrow> vec3 list" where
  "dot_normal d = fst (snd d)"

definition dot_tangent :: "dot \<Rightarrow> vec4 list" where
  "dot_tangent d = fst (snd (snd d))"

definition dot_uvs :: "dot \<Rightarrow> vec2 list" where
  "dot_uvs d = fst (snd (snd (snd d)))"

definition dot_colors :: "dot \<Rightarrow> vec4 list" where
  "dot_colors d = fst (snd (snd (snd (snd d))))"

definition dot_morph_normals :: "dot \<Rightarrow> vec3 list" where
  "dot_morph_normals d = fst (snd (snd (snd (snd (snd d)))))"

definition dot_facemaps :: "dot \<Rightarrow> real list" where
  "dot_facemaps d = snd (snd (snd (snd (snd (snd d)))))"

text \<open>The attributes that are active in one call of \<^verbatim>\<open>extract_primitives\<close>.\<close>

record flags =
  use_normals :: bool
  use_tangents :: bool
  use_morph_normals :: bool
  use_morph_tangents :: bool
  tex_coord_max :: nat
  color_max :: nat
  use_facemaps :: bool

text \<open>The first error of a list of results, or all the values.\<close>

fun collect :: "(error + 'a) list \<Rightarrow> error + 'a list" where
  "collect [] = Inr []"
| "collect (r # rs) =
     (case r of
        Inl e \<Rightarrow> Inl e
      | Inr x \<Rightarrow> (case collect rs of Inl e \<Rightarrow> Inl e | Inr xs \<Rightarrow> Inr (x # xs)))"

text \<open>The columns of \<^verbatim>\<open>dots\<close>, filled one after the other in the source, give one record
  per corner.\<close>

definition build_dots ::
  "flags \<Rightarrow> nat list \<Rightarrow> vec3 list \<Rightarrow> vec3 list list \<Rightarrow> vec3 list \<Rightarrow> real list \<Rightarrow>
   vec2 list list \<Rightarrow> vec4 list list \<Rightarrow> real list \<Rightarrow> dot list" where
  "build_dots fl vidxs normals morph_normals tangents signs uvs colors facemaps =
     map (\<lambda>i. (vidxs ! i,
                (if use_normals fl then [normals ! i] else []),
                (if use_tangents fl
                 then [case tangents ! i of (tx, ty, tz) \<Rightarrow> (tx, ty, tz, signs ! i)] else []),
                map (\<lambda>layer. layer ! i) uvs,
                map (\<lambda>layer. layer ! i) colors,
                map (\<lambda>ns. ns ! i) morph_normals,
                (if use_facemaps fl then [facemaps ! i] else [])))
         [0..<length vidxs]"

text \<open>Lines 133 to 180 of \<^verbatim>\<open>extract_primitives\<close>: the samplers are called in the order
  of the source, and the first exception ends the call.\<close>

definition sample_dots ::
  "mathutils \<Rightarrow> mesh \<Rightarrow> flags \<Rightarrow> key_block list \<Rightarrow> blender_object option \<Rightarrow>
   blender_object option \<Rightarrow> export_settings \<Rightarrow> error + dot list" where
  "sample_dots mu blender_mesh fl key_blocks armature blender_object export_settings =
     (let vidxs = map vertex_index (loops blender_mesh);
          kbs = (if use_morph_normals fl then key_blocks else [])
      in case (if use_normals fl
               then get_normals blender_mesh kbs armature blender_object export_settings
               else Inr ([], [])) of
           Inl e \<Rightarrow> Inl e
         | Inr (normals, morph_normals) \<Rightarrow>
        (case (if use_tangents fl
               then get_tangents mu blender_mesh armature blender_object export_settings
               else Inr []) of
           Inl e \<Rightarrow> Inl e
         | Inr tangents \<Rightarrow>
        (case (if use_tangents fl
               then get_bitangent_signs mu blender_mesh armature blender_object export_settings
               else Inr []) of
           Inl e \<Rightarrow> Inl e
         | Inr signs \<Rightarrow>
        (case collect (map (get_uvs blender_mesh) [0..<tex_coord_max fl]) of
           Inl e \<Rightarrow> Inl e
         | Inr uvs \<Rightarrow>
        (case collect (map (get_colors blender_mesh) [0..<color_max fl]) of
           Inl e \<Rightarrow> Inl e
         | Inr colors \<Rightarrow>
        (case (if use_facemaps fl then get_facemaps blender_mesh else Inr []) of
           Inl e \<Rightarrow> Inl e
         | Inr facemaps \<Rightarrow>
             Inr (build_dots fl vidxs normals morph_normals tangents signs uvs colors
                    facemaps)))))))"

section \<open>Material buckets\<close>

text \<open>Lines 184 to 204: \<^verbatim>\<open>loop_indices\<close> holds the three corners of every triangle, and
  \<^verbatim>\<open>prim_indices\<close> maps a material index to the corners of its triangles. The dictionary is listed in the order of insertion; its keys are distinct,
  so no assignment overwrites another.\<close>

definition triangle_loop_indices :: "loop_triangle list \<Rightarrow> nat list" where
  "triangle_loop_indices tris =
     concat (map (\<lambda>t. case tri_loops t of (a, b, c) \<Rightarrow> [a, b, c]) tris)"

definition prim_indices :: "materials_mode \<Rightarrow> loop_triangle list \<Rightarrow> (int \<times> nat list) list" where
  "prim_indices use_materials tris =
     (let loop_indices = triangle_loop_indices tris
      in if use_materials = NONE then [(- 1, loop_indices)]
         else
           let tri_material_idxs = map material_index tris;
               loop_material_idxs = np_repeat3 tri_material_idxs;
               unique_material_idxs = np_unique tri_material_idxs
           in map (\<lambda>material_idx.
                     (int material_idx, mask_eq loop_indices loop_material_idxs material_idx))
                  unique_material_idxs)"

section \<open>Primitives\<close>

text \<open>The keys of the \<^verbatim>\<open>attributes\<close> dictionary: \<open>TEXCOORD_n i\<close> is \<^verbatim>\<open>'TEXCOORD_%d' % i\<close>,
  \<open>VG name\<close> is \<^verbatim>\<open>'_VG_' + name\<close>, and so on.\<close>

datatype attribute_name =
    POSITION | NORMAL | TANGENT | TEXCOORD_n nat | COLOR_n nat | JOINTS_n nat | WEIGHTS_n nat
  | MORPH_POSITION_n nat | MORPH_NORMAL_n nat | MORPH_TANGENT_n nat | VG string | FACEMAPS

text \<open>An attribute array: rows of 2, 3 or 4 floats, or scalars. \<^verbatim>\<open>JOINTS_i\<close> and
  \<^verbatim>\<open>WEIGHTS_i\<close> are flat Python lists of scalars, four for every vertex.\<close>

datatype attribute_array =
    Vec2s "vec2 list" | Vec3s "vec3 list" | Vec4s "vec4 list" | Floats "real list"
  | FlatJoints "nat list" | FlatWeights "real list"

record primitive =
  attributes :: "(attribute_name \<times> attribute_array) list"
  indices :: "nat list"
  material :: int

text \<open>An attribute array that describes \<open>n\<close> vertices: it has \<open>n\<close> rows, or \<open>4 * n\<close>
  scalars when it is flat.\<close>

fun describes :: "attribute_array \<Rightarrow> nat \<Rightarrow> bool" where
  "describes (Vec2s a) n = (length a = n)"
| "describes (Vec3s a) n = (length a = n)"
| "describes (Vec4s a) n = (length a = n)"
| "describes (Floats a) n = (length a = n)"
| "describes (FlatJoints a) n = (length a = 4 * n)"
| "describes (FlatWeights a) n = (length a = 4 * n)"

text \<open>Lines 213 and 214: the dots of one bucket, deduplicated.\<close>

definition dedup_bucket :: "dot list \<Rightarrow> nat list \<Rightarrow> error + (dot list \<times> nat list)" where
  "dedup_bucket dots dot_indices =
     (case take_rows dots dot_indices of
        Inl e \<Rightarrow> Inl e
      | Inr prim_dots \<Rightarrow> Inr (np_unique_inverse prim_dots))"

text \<open>Slot \<open>j\<close> of a vertex in lines 276 to 280: its \<open>j\<close>-th influence, or the padding.\<close>

definition bone_slot :: "(nat \<times> real) list \<Rightarrow> nat \<Rightarrow> nat \<times> real" where
  "bone_slot bones j = (if j < length bones then bones ! j else (0, 0.0))"

text \<open>Lines 271 to 282: for every joint set, the (joint, weight) pairs appended for the
  vertices in turn, four for each.\<close>

definition pack_bones ::
  "(nat \<times> real) list list \<Rightarrow> nat \<Rightarrow> nat list \<Rightarrow> error + (nat \<times> real) list list" where
  "pack_bones vert_bones num_joint_sets blender_idxs =
     (case take_rows vert_bones blender_idxs of
        Inl e \<Rightarrow> Inl e
      | Inr per_vertex \<Rightarrow>
          Inr (map (\<lambda>k. concat (map (\<lambda>bones. map (bone_slot bones) [4 * k ..< 4 * k + 4])
                                     per_vertex))
                   [0..<num_joint_sets]))"

text \<open>The dictionary that a sequence of assignments \<^verbatim>\<open>d[k] = v\<close> builds.\<close>

definition assign_all :: "('k \<times> 'v) list \<Rightarrow> ('k \<times> 'v) list" where
  "assign_all kvs = fold (\<lambda>(k, v) d. AList.update k v d) kvs []"

text \<open>Lines 219 to 298: the assignments to the \<^verbatim>\<open>attributes\<close> dictionary, in the order of
  the source, from the deduplicated dots and from the per-vertex arrays taken at their
  vertex indices (\<open>position\<close>, \<open>morph_positions\<close>, the packed skin weights and the weights
  of the other vertex groups).\<close>

definition attribute_assignments ::
  "mathutils \<Rightarrow> flags \<Rightarrow> nat \<Rightarrow> dot list \<Rightarrow> vec3 list \<Rightarrow> vec3 list list \<Rightarrow>
   (nat \<times> real) list list \<Rightarrow> (string \<times> real list) list \<Rightarrow>
   (attribute_name \<times> attribute_array) list" where
  "attribute_assignments mu fl num_key_blocks prim_dots position morph_positions packed
     vgroup_weights =
     (let normals = map (\<lambda>d. hd (dot_normal d)) prim_dots;
          tangents = map (\<lambda>d. hd (dot_tangent d)) prim_dots
      in [(POSITION, Vec3s position)] @
         map (\<lambda>(morph_i, vs). (MORPH_POSITION_n morph_i, Vec3s vs))
             (enumerate 0 morph_positions) @
         (if use_normals fl then [(NORMAL, Vec3s normals)] else []) @
         (if use_tangents fl then [(TANGENT, Vec4s tangents)] else []) @
         (if use_morph_normals fl then
            concat (map (\<lambda>morph_i.
              let ns = map (\<lambda>d. dot_morph_normals d ! morph_i) prim_dots in
              [(MORPH_NORMAL_n morph_i, Vec3s ns)] @
              (if use_morph_tangents fl
               then [(MORPH_TANGENT_n morph_i,
                      Vec3s (calc_morph_tangents mu normals ns tangents))]
               else []))
              [0..<num_key_blocks])
          else []) @
         map (\<lambda>tex_coord_i.
                (TEXCOORD_n tex_coord_i, Vec2s (map (\<lambda>d. dot_uvs d ! tex_coord_i) prim_dots)))
             [0..<tex_coord_max fl] @
         map (\<lambda>color_i.
                (COLOR_n color_i, Vec4s (map (\<lambda>d. dot_colors d ! color_i) prim_dots)))
             [0..<color_max fl] @
         concat (map (\<lambda>(i, jws). [(JOINTS_n i, FlatJoints (map fst jws)),
                                    (WEIGHTS_n i, FlatWeights (map snd jws))])
                     (enumerate 0 packed)) @
         map (\<lambda>(vgroup_name, ws). (VG vgroup_name, Floats ws)) vgroup_weights @
         (if use_facemaps fl
          then [(FACEMAPS, Floats (map (\<lambda>d. hd (dot_facemaps d)) prim_dots))]
          else []))"

text \<open>Lines 219 to 298 with their exceptions: the per-vertex arrays are indexed with the
  vertex indices of the dots (\<open>blender_idxs\<close>), in the order of the source.\<close>

definition make_attributes ::
  "mathutils \<Rightarrow> flags \<Rightarrow> nat \<Rightarrow> vec3 list \<Rightarrow> vec3 list list \<Rightarrow>
   ((nat \<times> real) list list \<times> nat) option \<Rightarrow> (string \<times> real list) list \<Rightarrow> dot list \<Rightarrow>
   error + (attribute_name \<times> attribute_array) list" where
  "make_attributes mu fl num_key_blocks locs morph_locs bone_data extra_vgroup_weights prim_dots =
     (let blender_idxs = map dot_vertex_index prim_dots
      in case take_rows locs blender_idxs of
           Inl e \<Rightarrow> Inl e
         | Inr position \<Rightarrow>
        (case collect (map (\<lambda>vs. take_rows vs blender_idxs) morph_locs) of
           Inl e \<Rightarrow> Inl e
         | Inr morph_positions \<Rightarrow>
        (case (case bone_data of
                 None \<Rightarrow> Inr []
               | Some (vert_bones, num_joint_sets) \<Rightarrow>
                   pack_bones vert_bones num_joint_sets blender_idxs) of
           Inl e \<Rightarrow> Inl e
         | Inr packed \<Rightarrow>
        (case collect (map (\<lambda>(vgroup_name, weights). take_rows weights blender_idxs)
                           extra_vgroup_weights) of
           Inl e \<Rightarrow> Inl e
         | Inr vg_weights \<Rightarrow>
             Inr (assign_all
                    (attribute_assignments mu fl num_key_blocks prim_dots position
                       morph_positions packed
                       (zip (map fst extra_vgroup_weights) vg_weights)))))))"

text \<open>The body of the loop of lines 210 to 298 for one bucket: \<open>None\<close> is the
  \<^verbatim>\<open>continue\<close> of line 217.\<close>

definition make_primitive ::
  "mathutils \<Rightarrow> flags \<Rightarrow> nat \<Rightarrow> vec3 list \<Rightarrow> vec3 list list \<Rightarrow>
   ((nat \<times> real) list list \<times> nat) option \<Rightarrow> (string \<times> real list) list \<Rightarrow> dot list \<Rightarrow>
   int \<times> nat list \<Rightarrow> error + primitive option" where
  "make_primitive mu fl num_key_blocks locs morph_locs bone_data extra_vgroup_weights dots bucket =
     (case bucket of (material_idx, dot_indices) \<Rightarrow>
        (case dedup_bucket dots dot_indices of
           Inl e \<Rightarrow> Inl e
         | Inr (prim_dots, inverse_indices) \<Rightarrow>
             if length prim_dots = 0 then Inr None
             else
               (case make_attributes mu fl num_key_blocks locs morph_locs bone_data
                       extra_vgroup_weights prim_dots of
                  Inl e \<Rightarrow> Inl e
                | Inr attrs \<Rightarrow>
                    Inr (Some \<lparr>attributes = attrs, indices = inverse_indices,
                               material = material_idx\<rparr>))))"

text \<open>The loop over the buckets: the primitives are appended in turn, and the first
  exception ends the call.\<close>

fun create_primitives ::
  "(int \<times> nat list \<Rightarrow> error + primitive option) \<Rightarrow> (int \<times> nat list) list \<Rightarrow>
   error + primitive list" where
  "create_primitives body [] = Inr []"
| "create_primitives body (bucket # buckets) =
     (case body bucket of
        Inl e \<Rightarrow> Inl e
      | Inr r \<Rightarrow>
          (case create_primitives body buckets of
             Inl e \<Rightarrow> Inl e
           | Inr primitives \<Rightarrow>
               Inr ((case r of None \<Rightarrow> [] | Some p \<Rightarrow> [p]) @ primitives)))"

section \<open>\<^verbatim>\<open>extract_primitives\<close>\<close>

text \<open>Lines 27 to 47, 75, 76 and 89: which attributes are exported.\<close>

definition active_flags :: "mesh \<Rightarrow> export_settings \<Rightarrow> flags" where
  "active_flags blender_mesh export_settings =
     (let un = NORMALS export_settings;
          ut = (un \<and> TANGENTS export_settings \<and> uv_layers_active blender_mesh \<and>
                length (uv_layers blender_mesh) > 0 \<and> calc_tangents_ok blender_mesh);
          umn = (un \<and> MORPH_NORMAL export_settings)
      in \<lparr>use_normals = un,
          use_tangents = ut,
          use_morph_normals = umn,
          use_morph_tangents = (umn \<and> ut \<and> MORPH_TANGENT export_settings),
          tex_coord_max = (if TEX_COORDS export_settings \<and> uv_layers_active blender_mesh
                           then length (uv_layers blender_mesh) else 0),
          color_max = (if COLORS export_settings then length (vertex_colors blender_mesh) else 0),
          use_facemaps = (face_maps blender_mesh \<noteq> [])\<rparr>)"

text \<open>Lines 49 to 73: the armature and the skin. Of several armature modifiers the
  dictionary \<^verbatim>\<open>modifiers_dict\<close> keeps the last. \<^verbatim>\<open>gather_skin\<close> belongs to another module
  and is a parameter.\<close>

definition resolve_skin ::
  "(blender_object \<Rightarrow> export_settings \<Rightarrow> skin option) \<Rightarrow> blender_object option \<Rightarrow>
   string list \<Rightarrow> modifier list option \<Rightarrow> export_settings \<Rightarrow>
   blender_object option \<times> skin option" where
  "resolve_skin gather_skin blender_object blender_vertex_groups modifiers export_settings =
     (if blender_vertex_groups \<noteq> [] \<and> SKINS export_settings then
        let armature0 =
              (case modifiers of
                 None \<Rightarrow> None
               | Some ms \<Rightarrow>
                   (case filter (\<lambda>m. mod_type m = ''ARMATURE'') ms of
                      [] \<Rightarrow> None
                    | m # rest \<Rightarrow> mod_object (last (m # rest))));
            is_child_of_arma =
              (case (armature0, blender_object) of
                 (Some arm, Some ob) \<Rightarrow>
                   parent_type ob = ''BONE'' \<and> parent_name ob = ob_name arm
               | _ \<Rightarrow> False);
            armature1 = (if is_child_of_arma then None else armature0)
        in case armature1 of
             None \<Rightarrow> (None, None)
           | Some arm \<Rightarrow>
               (case gather_skin arm export_settings of
                  None \<Rightarrow> (None, None)
                | Some skn \<Rightarrow> (Some arm, Some skn))
      else (None, None))"

text \<open>Lines 78 to 84: the shape keys that are exported.\<close>

definition active_key_blocks :: "mesh \<Rightarrow> export_settings \<Rightarrow> key_block list" where
  "active_key_blocks blender_mesh export_settings =
     (case shape_keys blender_mesh of
        None \<Rightarrow> []
      | Some kbs \<Rightarrow>
          if MORPH export_settings then filter (\<lambda>key_block. \<not> kb_skipped key_block) kbs else [])"

text \<open>\<^verbatim>\<open>extract_primitives\<close>. The arguments \<^verbatim>\<open>glTF\<close> and \<^verbatim>\<open>library\<close> are not read.\<close>

definition extract_primitives ::
  "mathutils \<Rightarrow> (blender_object \<Rightarrow> export_settings \<Rightarrow> skin option) \<Rightarrow> mesh \<Rightarrow>
   blender_object option \<Rightarrow> string list \<Rightarrow> modifier list option \<Rightarrow> export_settings \<Rightarrow>
   error + primitive list" where
  "extract_primitives mu gather_skin blender_mesh blender_object blender_vertex_groups modifiers
     export_settings =
     (let fl = active_flags blender_mesh export_settings;
          skinning =
            resolve_skin gather_skin blender_object blender_vertex_groups modifiers
              export_settings;
          armature = fst skinning;
          key_blocks = active_key_blocks blender_mesh export_settings;
          use_materials = MATERIALS export_settings
      in case get_positions blender_mesh key_blocks armature blender_object export_settings of
           Inl e \<Rightarrow> Inl e
         | Inr (locs, morph_locs) \<Rightarrow>
             let bone_data =
                   (case snd skinning of
                      None \<Rightarrow> None
                    | Some skn \<Rightarrow> Some (get_bone_data blender_mesh skn blender_vertex_groups));
                 extra_vgroup_weights =
                   get_extra_vgroups blender_mesh modifiers blender_vertex_groups
             in case sample_dots mu blender_mesh fl key_blocks armature blender_object
                       export_settings of
                  Inl e \<Rightarrow> Inl e
                | Inr dots \<Rightarrow>
                    create_primitives
                      (make_primitive mu fl (length key_blocks) locs morph_locs bone_data
                         extra_vgroup_weights dots)
                      (prim_indices use_materials (loop_triangles blender_mesh)))"

section \<open>The mesh in the shape of a morph target\<close>

text \<open>The mesh with the coordinates of a shape key at its vertices and the split normals
  of the shape key at its corners. The positions and normals that the samplers return for
  it are the fully transformed values of the morph target.\<close>

definition with_shape :: "mesh \<Rightarrow> key_block \<Rightarrow> mesh" where
  "with_shape m kb =
     m\<lparr>vertices := map (\<lambda>(i, v). v\<lparr>co := kb_co kb i\<rparr>) (enumerate 0 (vertices m)),
       loops := map (\<lambda>(i, l). l\<lparr>normal := kb_normals_split kb i\<rparr>) (enumerate 0 (loops m))\<rparr>"

text \<open>The re-basing of a skinned object is defined when the matrix inversions of the
  samplers succeed: the armature's world matrix and the linear block of the
  armature-relative object matrix have an inverse. Without an armature or without an
  object nothing is inverted.\<close>

definition rebasing_defined :: "blender_object option \<Rightarrow> blender_object option \<Rightarrow> bool" where
  "rebasing_defined armature blender_object =
     (case (armature, blender_object) of
        (Some arm, Some ob) \<Rightarrow>
          (case inverted4 (matrix_world arm) of
             None \<Rightarrow> False
           | Some arm_inv \<Rightarrow> inverted3 (to_3x3 (mat_mul4 arm_inv (matrix_world ob))) \<noteq> None)
      | _ \<Rightarrow> True)"

section \<open>The order of first appearance\<close>

text \<open>The order the specification names for the deduplicated records: every record at
  the place of its first occurrence. It is compared with what \<^verbatim>\<open>np.unique\<close> returns.\<close>

definition first_appearance :: "'a list \<Rightarrow> 'a list" where
  "first_appearance xs = fold (\<lambda>x acc. if x \<in> set acc then acc else acc @ [x]) xs []"

section \<open>Example inputs\<close>

text \<open>Two corners without per-corner attributes, at vertex 1 and at vertex 0, and a third
  corner at vertex 1 again.\<close>

definition example_dots :: "dot list" where
  "example_dots = [(1, [], [], [], [], [], []), (0, [], [], [], [], [], []),
                   (1, [], [], [], [], [], [])]"

text \<open>A mesh with two vertices and two corners, one UV layer and one colour layer; the
  first vertex has four influences, the second has one.\<close>

definition example_skinned_mesh :: mesh where
  "example_skinned_mesh =
     \<lparr>vertices = [\<lparr>co = (0, 0, 0),
                    groups = [\<lparr>group = 1, weight = 1 / 4\<rparr>, \<lparr>group = 0, weight = 1 / 2\<rparr>,
                              \<lparr>group = 2, weight = 3 / 4\<rparr>, \<lparr>group = 0, weight = 0\<rparr>]\<rparr>,
                  \<lparr>co = (1, 0, 0), groups = [\<lparr>group = 1, weight = 1\<rparr>]\<rparr>],
      loops = [\<lparr>vertex_index = 1, normal = (0, 0, 1), tangent = (1, 0, 0), bitangent_sign = 1\<rparr>,
               \<lparr>vertex_index = 0, normal = (0, 0, 1), tangent = (1, 0, 0), bitangent_sign = - 1\<rparr>],
      loop_triangles = [], polygons = [], uv_layers = [\<lambda>i. (1 / 4, 3 / 4)],
      uv_layers_active = True, calc_tangents_ok = True,
      vertex_colors = [\<lambda>i. (1, 1292 / 100000, - 1, 1 / 2)],
      shape_keys = None, face_maps = []\<rparr>"

text \<open>An object with a given linear block at the origin. For the examples the quaternion
  matrix of a matrix is its linear block: that is right for a rotation, and for a
  mirrored block it stands for a quaternion matrix of negative determinant.\<close>

definition example_object :: "mat3 \<Rightarrow> blender_object" where
  "example_object m =
     \<lparr>ob_name = ''ob'', ob_type = ''MESH'', matrix_world = (m, (0, 0, 0)),
      parent_type = ''OBJECT'', parent_name = [], bone_names = []\<rparr>"

definition example_mu :: mathutils where
  "example_mu = \<lparr>to_quaternion_to_matrix = (\<lambda>m. fst m),
                 rotation_difference = (\<lambda>a b. (1, 0, 0, 0)),
                 rotate = (\<lambda>v q. v)\<rparr>"

definition example_settings :: export_settings where
  "example_settings =
     \<lparr>NORMALS = True, TANGENTS = False, TEX_COORDS = False, COLORS = False, SKINS = False,
      MORPH = True, MORPH_NORMAL = True, MORPH_TANGENT = False, MATERIALS = EXPORT,
      YUP = True\<rparr>"

text \<open>A shape key for the example mesh, and an object moved by one unit.\<close>

definition example_key_block :: key_block where
  "example_key_block =
     \<lparr>kb_co = (\<lambda>i. [(0, 0, 2), (1, 3, 0)] ! i), kb_normals_split = (\<lambda>i. (0, 1, 0)),
      kb_skipped = False\<rparr>"

definition example_moved_object :: blender_object where
  "example_moved_object =
     \<lparr>ob_name = ''ob'', ob_type = ''MESH'',
      matrix_world = (((1, 0, 0), (0, 1, 0), (0, 0, 1)), (1, 0, 0)),
      parent_type = ''OBJECT'', parent_name = [], bone_names = []\<rparr>"

text \<open>A quad of two triangles with different materials, whose corners visit the vertices
  2, 1, 0 and 3; and the mesh without vertices.\<close>

definition example_quad_mesh :: mesh where
  "example_quad_mesh =
     \<lparr>vertices = [\<lparr>co = (0, 0, 0), groups = []\<rparr>, \<lparr>co = (1, 0, 0), groups = []\<rparr>,
                  \<lparr>co = (1, 1, 0), groups = []\<rparr>, \<lparr>co = (0, 1, 0), groups = []\<rparr>],
      loops = [\<lparr>vertex_index = 2, normal = (0, 0, 1), tangent = (1, 0, 0), bitangent_sign = 1\<rparr>,
               \<lparr>vertex_index = 1, normal = (0, 0, 1), tangent = (1, 0, 0), bitangent_sign = 1\<rparr>,
               \<lparr>vertex_index = 0, normal = (0, 0, 1), tangent = (1, 0, 0), bitangent_sign = 1\<rparr>,
               \<lparr>vertex_index = 3, normal = (0, 0, 1), tangent = (1, 0, 0), bitangent_sign = 1\<rparr>],
      loop_triangles = [\<lparr>tri_loops = (0, 1, 2), material_index = 1\<rparr>,
                        \<lparr>tri_loops = (0, 2, 3), material_index = 0\<rparr>],
      polygons = [\<lparr>loop_start = 0, loop_total = 4\<rparr>],
      uv_layers = [], uv_layers_active = False, calc_tangents_ok = True,
      vertex_colors = [], shape_keys = None, face_maps = []\<rparr>"

definition example_empty_mesh :: mesh where
  "example_empty_mesh =
     \<lparr>vertices = [], loops = [], loop_triangles = [], polygons = [],
      uv_layers = [], uv_layers_active = False, calc_tangents_ok = True,
      vertex_colors = [], shape_keys = None, face_maps = []\<rparr>"

text \<open>A skin with one joint for every armature, and an armature modifier for the object
  at the origin.\<close>

definition example_gather_skin :: "blender_object \<Rightarrow> export_settings \<Rightarrow> skin option" where
  "example_gather_skin armature export_settings = Some \<lparr>joints = [''bone'']\<rparr>"

definition example_armature_modifier :: modifier where
  "example_armature_modifier =
     \<lparr>mod_type = ''ARMATURE'',
      mod_object = Some (example_object ((1, 0, 0), (0, 1, 0), (0, 0, 1))),
      use_vertex_groups = True\<rparr>"

section \<open>Deduplication\<close>

lemma distinct_remdups_adj_sorted: "sorted xs \<Longrightarrow> distinct (remdups_adj xs)"
  by (induction xs rule: remdups_adj.induct) auto

lemma sorted_np_unique: "sorted (np_unique ar)"
  by (simp add: np_unique_def sorted_remdups_adj)

lemma distinct_np_unique: "distinct (np_unique ar)"
  by (simp add: np_unique_def distinct_remdups_adj_sorted)

lemma set_np_unique: "set (np_unique ar) = set ar"
  by (simp add: np_unique_def)

lemma np_unique_sorted_list_of_set: "np_unique ar = sorted_list_of_set (set ar)"
  by (metis sorted_np_unique distinct_np_unique set_np_unique
      sorted_list_of_set.idem_if_sorted_distinct)

lemma index_of_less: "x \<in> set xs \<Longrightarrow> index_of x xs < length xs"
  by (induction xs) auto

lemma nth_index_of: "x \<in> set xs \<Longrightarrow> xs ! index_of x xs = x"
  by (induction xs) auto

lemma index_of_eq_iff:
  "x \<in> set xs \<Longrightarrow> y \<in> set xs \<Longrightarrow> index_of x xs = index_of y xs \<longleftrightarrow> x = y"
  by (metis nth_index_of)

lemma take_rows_Inr:
  "take_rows arr idxs = Inr rows \<Longrightarrow>
     rows = map (\<lambda>i. arr ! i) idxs \<and> (\<forall>i \<in> set idxs. i < length arr)"
  by (auto simp: take_rows_def list_all_iff split: if_splits)

lemma dedup_bucket_Inr:
  assumes "dedup_bucket dots dot_indices = Inr (prim_dots, idx)"
  shows "prim_dots = np_unique (map (\<lambda>c. dots ! c) dot_indices)"
    and "idx = map (\<lambda>c. index_of (dots ! c) prim_dots) dot_indices"
    and "\<forall>c \<in> set dot_indices. c < length dots"
  using assms
  by (auto simp: dedup_bucket_def np_unique_inverse_def Let_def comp_def
      split: sum.splits dest!: take_rows_Inr)

lemma dedup_bucket_example:
  "dedup_bucket example_dots [0, 1, 2] =
     Inr ([(0, [], [], [], [], [], []), (1, [], [], [], [], [], [])], [1, 0, 1])"
  by (simp add: dedup_bucket_def take_rows_def np_unique_inverse_def np_unique_def
      example_dots_def)

text \<open>
  Claim C1, as the code has it. The deduplicated records of a bucket are returned in
  strictly ascending order of the records (lexicographic, the vertex index first), not in
  the order of first appearance: they are the sorted list of the set of records of the
  bucket, so the sequence depends on that set only and is the same in every run.
\<close>

theorem dedup_order:
  assumes "dedup_bucket dots dot_indices = Inr (prim_dots, idx)"
  shows "sorted_wrt (<) prim_dots \<and>
         set prim_dots = (\<lambda>c. dots ! c) ` set dot_indices \<and>
         prim_dots = sorted_list_of_set ((\<lambda>c. dots ! c) ` set dot_indices)"
proof -
  have u: "prim_dots = np_unique (map (\<lambda>c. dots ! c) dot_indices)"
    using dedup_bucket_Inr(1)[OF assms] .
  have "sorted prim_dots" "distinct prim_dots"
    by (simp_all add: u sorted_np_unique distinct_np_unique)
  then have "sorted_wrt (<) prim_dots"
    by (simp add: strict_sorted_iff)
  moreover have "set prim_dots = (\<lambda>c. dots ! c) ` set dot_indices"
    by (simp add: u set_np_unique)
  moreover have "prim_dots = sorted_list_of_set ((\<lambda>c. dots ! c) ` set dot_indices)"
    by (simp add: u np_unique_sorted_list_of_set)
  ultimately show ?thesis by simp
qed

theorem dedup_order_witness:
  "dedup_bucket example_dots [0, 1, 2] =
     Inr ([(0, [], [], [], [], [], []), (1, [], [], [], [], [], [])], [1, 0, 1]) \<and>
   sorted_wrt (<) [(0, [], [], [], [], [], []), (1, [], [], [], [], [], [])::dot] \<and>
   set [(0, [], [], [], [], [], []), (1, [], [], [], [], [], [])] =
     (\<lambda>c. example_dots ! c) ` set [0, 1, 2]"
  using dedup_order[OF dedup_bucket_example] dedup_bucket_example by blast

text \<open>Claim C1 as stated fails: the corner stream of the example meets the record of
  vertex 1 first, and the deduplicated sequence starts with the record of vertex 0.\<close>

theorem dedup_first_appearance_counterexample:
  "dedup_bucket example_dots [0, 1, 2] =
     Inr ([(0, [], [], [], [], [], []), (1, [], [], [], [], [], [])], [1, 0, 1]) \<and>
   first_appearance [example_dots ! 0, example_dots ! 1, example_dots ! 2] =
     [(1, [], [], [], [], [], []), (0, [], [], [], [], [], [])] \<and>
   [(0, [], [], [], [], [], []), (1, [], [], [], [], [], [])::dot] \<noteq>
     first_appearance [example_dots ! 0, example_dots ! 1, example_dots ! 2]"
proof (intro conjI)
  show "dedup_bucket example_dots [0, 1, 2] =
     Inr ([(0, [], [], [], [], [], []), (1, [], [], [], [], [], [])], [1, 0, 1])"
    by (rule dedup_bucket_example)
qed (simp_all add: first_appearance_def example_dots_def)

text \<open>
  Claim C2 (dedup soundness). Within a bucket, two corners get the same deduplicated
  index if and only if their composite records are equal, which for records of numbers
  is equality of every field; the index buffer has one entry per corner of the bucket.
\<close>

theorem dedup_sound:
  assumes "dedup_bucket dots dot_indices = Inr (prim_dots, idx)"
    and "c1 < length dot_indices" and "c2 < length dot_indices"
  shows "length idx = length dot_indices \<and>
         (idx ! c1 = idx ! c2 \<longleftrightarrow> dots ! (dot_indices ! c1) = dots ! (dot_indices ! c2))"
proof -
  have u: "prim_dots = np_unique (map (\<lambda>c. dots ! c) dot_indices)"
    and i: "idx = map (\<lambda>c. index_of (dots ! c) prim_dots) dot_indices"
    using dedup_bucket_Inr[OF assms(1)] by simp_all
  have m1: "dots ! (dot_indices ! c1) \<in> set prim_dots"
    using assms(2) by (simp add: u set_np_unique)
  have m2: "dots ! (dot_indices ! c2) \<in> set prim_dots"
    using assms(3) by (simp add: u set_np_unique)
  show ?thesis
    using assms(2,3) index_of_eq_iff[OF m1 m2] by (simp add: i)
qed

theorem dedup_sound_witness:
  "dedup_bucket example_dots [0, 1, 2] =
     Inr ([(0, [], [], [], [], [], []), (1, [], [], [], [], [], [])], [1, 0, 1]) \<and>
   [1, 0, 1::nat] ! 0 = [1, 0, 1] ! 2 \<and> example_dots ! 0 = example_dots ! 2 \<and>
   [1, 0, 1::nat] ! 0 \<noteq> [1, 0, 1] ! 1 \<and> example_dots ! 0 \<noteq> example_dots ! 1"
  using dedup_sound[OF dedup_bucket_example, of 0 2] dedup_sound[OF dedup_bucket_example, of 0 1]
    dedup_bucket_example
  by (simp add: example_dots_def)

section \<open>The axis remap\<close>



section \<open>Colours, texture coordinates and bitangent signs\<close>






lemma example_inverted4:
  "inverted4 (matrix_world (example_object ((1, 0, 0), (0, 1, 0), (0, 0, 1)))) =
     Some (((1, 0, 0), (0, 1, 0), (0, 0, 1)), (0, 0, 0))"
  by (simp add: inverted4_def example_object_def mat_vec_def)




section \<open>Skin weights\<close>









lemma length_concat_blocks:
  "length (concat (map (\<lambda>x. map (f x) [a ..< a + 4]) xs)) = 4 * length xs"
  by (simp add: length_concat comp_def sum_list_triv)








section \<open>Morph deltas\<close>

lemma length_zup2yup: "length (zup2yup a) = length a"
  by (simp add: zup2yup_def)

lemma length_apply_mat_to_all: "length (apply_mat_to_all mtx a) = length a"
  by (simp add: apply_mat_to_all_def Let_def split: matrix.splits)

lemma length_normalize_vecs: "length (normalize_vecs a) = length a"
  by (simp add: normalize_vecs_def)

lemma length_replace_zero_normals: "length (replace_zero_normals a) = length a"
  by (simp add: replace_zero_normals_def)

lemma length_foreach_get: "length (foreach_get f n) = n"
  by (simp add: foreach_get_def)

lemma vadd_vsub: "vadd b (vsub x b) = x"
  by (cases b; cases x) simp

lemma base_plus_delta:
  "length base = length morphed \<Longrightarrow> map2 vadd base (map2 vsub morphed base) = morphed"
  by (induction base morphed rule: list_induct2) (simp_all add: vadd_vsub)

lemma zup2yup_vsub:
  "zup2yup (map2 vsub a b) = map2 vsub (zup2yup a) (zup2yup b)"
proof (induction a arbitrary: b)
  case Nil
  show ?case by (simp add: zup2yup_def)
next
  case (Cons x xs)
  show ?case
  proof (cases b)
    case Nil
    then show ?thesis by (simp add: zup2yup_def)
  next
    case (Cons y ys)
    have "zup2yup (map2 vsub xs ys) = map2 vsub (zup2yup xs) (zup2yup ys)"
      by (rule Cons.IH)
    then show ?thesis
      using Cons by (cases x; cases y) (simp add: zup2yup_def)
  qed
qed

lemma base_plus_delta_yup:
  assumes "length base = length morphed"
  shows "map2 vadd (zup2yup base) (zup2yup (map2 vsub morphed base)) = zup2yup morphed"
proof -
  have len: "length (zup2yup base) = length (zup2yup morphed)"
    using assms by (simp add: length_zup2yup)
  have e: "zup2yup (map2 vsub morphed base) = map2 vsub (zup2yup morphed) (zup2yup base)"
    by (rule zup2yup_vsub)
  show ?thesis
    unfolding e by (rule base_plus_delta[OF len])
qed

lemma co_with_shape:
  "map co (vertices (with_shape m kb)) = foreach_get (kb_co kb) (length (vertices m))"
  by (rule nth_equalityI) (simp_all add: with_shape_def foreach_get_def nth_enumerate_eq)

lemma normal_with_shape:
  "map normal (loops (with_shape m kb)) = foreach_get (kb_normals_split kb) (length (loops m))"
  by (rule nth_equalityI) (simp_all add: with_shape_def foreach_get_def nth_enumerate_eq)

lemma length_with_shape:
  "length (vertices (with_shape m kb)) = length (vertices m)"
  "length (loops (with_shape m kb)) = length (loops m)"
  by (simp_all add: with_shape_def)

lemma positions_round_trip:
  assumes "k < length key_blocks"
    and "get_positions m key_blocks a ob es = Inr (locs, morph_locs)"
  shows "get_positions (with_shape m (key_blocks ! k)) [] a ob es =
           Inr (map2 vadd locs (morph_locs ! k), [])"
proof -
  let ?L = "map co (vertices m)"
  let ?F = "foreach_get (kb_co (key_blocks ! k)) (length (vertices m))"
  have lf: "length ?L = length ?F" by (simp add: length_foreach_get)
  show ?thesis
  proof (cases "\<exists>arm o'. a = Some arm \<and> ob = Some o'")
    case True
    then obtain arm o' where ao: "a = Some arm" "ob = Some o'" by blast
    from assms(2) obtain arm_inv where inv: "inverted4 (matrix_world arm) = Some arm_inv"
      by (cases "inverted4 (matrix_world arm)") (simp_all add: get_positions_def ao)
    let ?T = "apply_mat_to_all (Mat4 (matrix_world o'))"
    have lt: "length (?T ?L) = length (?T ?F)"
      using lf by (simp add: length_apply_mat_to_all)
    show ?thesis
    proof (cases "YUP es")
      case True
      have "locs = zup2yup (?T ?L)" "morph_locs ! k = zup2yup (map2 vsub (?T ?F) (?T ?L))"
        using assms True by (auto simp: get_positions_def ao inv Let_def)
      then show ?thesis
        using True base_plus_delta_yup[OF lt]
        by (simp add: get_positions_def ao inv Let_def co_with_shape length_with_shape)
    next
      case False
      have "locs = ?T ?L" "morph_locs ! k = map2 vsub (?T ?F) (?T ?L)"
        using assms False by (auto simp: get_positions_def ao inv Let_def)
      then show ?thesis
        using False base_plus_delta[OF lt]
        by (simp add: get_positions_def ao inv Let_def co_with_shape length_with_shape)
    qed
  next
    case False
    then have c: "get_positions m' kbs a ob es =
        (let locs1 = map co (vertices m');
             morph_locs1 = map (\<lambda>key_block. foreach_get (kb_co key_block) (length (vertices m'))) kbs;
             morph_locs2 = map (\<lambda>vs. map2 vsub vs locs1) morph_locs1
         in if YUP es then Inr (zup2yup locs1, map zup2yup morph_locs2)
            else Inr (locs1, morph_locs2))" for m' kbs
      by (cases a; cases ob) (simp_all add: get_positions_def Let_def)
    show ?thesis
    proof (cases "YUP es")
      case True
      have "locs = zup2yup ?L" "morph_locs ! k = zup2yup (map2 vsub ?F ?L)"
        using assms True by (auto simp: c Let_def)
      then show ?thesis
        using True base_plus_delta_yup[OF lf]
        by (simp add: c Let_def co_with_shape length_with_shape)
    next
      case False
      have "locs = ?L" "morph_locs ! k = map2 vsub ?F ?L"
        using assms False by (auto simp: c Let_def)
      then show ?thesis
        using False base_plus_delta[OF lf]
        by (simp add: c Let_def co_with_shape length_with_shape)
    qed
  qed
qed


lemma normals_round_trip:
  assumes "k < length key_blocks"
    and "get_normals m key_blocks a ob es = Inr (normals, morph_normals)"
  shows "get_normals (with_shape m (key_blocks ! k)) [] a ob es =
           Inr (map2 vadd normals (morph_normals ! k), [])"
proof -
  let ?N = "map normal (loops m)"
  let ?F = "foreach_get (kb_normals_split (key_blocks ! k)) (length (loops m))"
  have lf: "length ?N = length ?F" by (simp add: length_foreach_get)
  show ?thesis
  proof (cases "\<exists>arm o'. a = Some arm \<and> ob = Some o'")
    case True
    then obtain arm o' where ao: "a = Some arm" "ob = Some o'" by blast
    from assms(2) obtain arm_inv where inv: "inverted4 (matrix_world arm) = Some arm_inv"
      by (cases "inverted4 (matrix_world arm)") (simp_all add: get_normals_def ao)
    from assms(2) obtain inv3
      where inv3: "inverted3 (to_3x3 (mat_mul4 arm_inv (matrix_world o'))) = Some inv3"
      by (cases "inverted3 (to_3x3 (mat_mul4 arm_inv (matrix_world o')))")
         (simp_all add: get_normals_def ao inv)
    let ?T = "\<lambda>ns. replace_zero_normals (normalize_vecs (apply_mat_to_all
                 (Mat3 (mat_mul3 (to_3x3 (matrix_world arm)) (transposed inv3))) ns))"
    have lt: "length (?T ?N) = length (?T ?F)"
      using lf
      by (simp add: length_apply_mat_to_all length_normalize_vecs length_replace_zero_normals)
    show ?thesis
    proof (cases "YUP es")
      case True
      have "normals = zup2yup (?T ?N)"
        "morph_normals ! k = zup2yup (map2 vsub (?T ?F) (?T ?N))"
        using assms True by (auto simp: get_normals_def ao inv inv3 Let_def)
      then show ?thesis
        using True base_plus_delta_yup[OF lt]
        by (simp add: get_normals_def ao inv inv3 Let_def normal_with_shape length_with_shape)
    next
      case False
      have "normals = ?T ?N" "morph_normals ! k = map2 vsub (?T ?F) (?T ?N)"
        using assms False by (auto simp: get_normals_def ao inv inv3 Let_def)
      then show ?thesis
        using False base_plus_delta[OF lt]
        by (simp add: get_normals_def ao inv inv3 Let_def normal_with_shape length_with_shape)
    qed
  next
    case False
    then have c: "get_normals m' kbs a ob es =
        (let normals1 = map normal (loops m');
             morph_normals1 =
               map (\<lambda>key_block. foreach_get (kb_normals_split key_block) (length (loops m'))) kbs;
             normals2 = replace_zero_normals normals1;
             morph_normals2 = map replace_zero_normals morph_normals1;
             morph_normals3 = map (\<lambda>ns. map2 vsub ns normals2) morph_normals2
         in if YUP es then Inr (zup2yup normals2, map zup2yup morph_normals3)
            else Inr (normals2, morph_normals3))" for m' kbs
      by (cases a; cases ob) (simp_all add: get_normals_def Let_def)
    have lt: "length (replace_zero_normals ?N) = length (replace_zero_normals ?F)"
      using lf by (simp add: length_replace_zero_normals)
    show ?thesis
    proof (cases "YUP es")
      case True
      have "normals = zup2yup (replace_zero_normals ?N)"
        "morph_normals ! k =
           zup2yup (map2 vsub (replace_zero_normals ?F) (replace_zero_normals ?N))"
        using assms True by (auto simp: c Let_def)
      then show ?thesis
        using True base_plus_delta_yup[OF lt]
        by (simp add: c Let_def normal_with_shape length_with_shape)
    next
      case False
      have "normals = replace_zero_normals ?N"
        "morph_normals ! k = map2 vsub (replace_zero_normals ?F) (replace_zero_normals ?N)"
        using assms False by (auto simp: c Let_def)
      then show ?thesis
        using False base_plus_delta[OF lt]
        by (simp add: c Let_def normal_with_shape length_with_shape)
    qed
  qed
qed

text \<open>
  Claim C8 (round-trip morph delta). For every active morph target, the base positions
  plus the morph position deltas are the positions of the mesh in the shape of the
  target, and the base normals plus the morph normal deltas are its normals, each after
  all the transforms of the sampler (the skin transform, the normalisation and the
  replacement of zero normals, the Y-up remap): the delta is taken after the skin
  transform and before the remap, which is linear.
\<close>

theorem morph_delta_round_trip:
  assumes "k < length key_blocks"
  shows "(get_positions m key_blocks a ob es = Inr (locs, morph_locs) \<longrightarrow>
            length locs = length (vertices m) \<and> length (morph_locs ! k) = length (vertices m) \<and>
            get_positions (with_shape m (key_blocks ! k)) [] a ob es =
              Inr (map2 vadd locs (morph_locs ! k), [])) \<and>
         (get_normals m key_blocks a ob es = Inr (normals, morph_normals) \<longrightarrow>
            length normals = length (loops m) \<and> length (morph_normals ! k) = length (loops m) \<and>
            get_normals (with_shape m (key_blocks ! k)) [] a ob es =
              Inr (map2 vadd normals (morph_normals ! k), []))"
proof (intro conjI impI)
  assume p: "get_positions m key_blocks a ob es = Inr (locs, morph_locs)"
  show "get_positions (with_shape m (key_blocks ! k)) [] a ob es =
          Inr (map2 vadd locs (morph_locs ! k), [])"
    using positions_round_trip[OF assms p] .
  show "length locs = length (vertices m)"
    using p
    by (auto simp: get_positions_def Let_def length_zup2yup length_apply_mat_to_all
        split: option.splits if_splits sum.splits)
  show "length (morph_locs ! k) = length (vertices m)"
    using p assms
    by (auto simp: get_positions_def Let_def length_zup2yup length_apply_mat_to_all
        length_foreach_get split: option.splits if_splits sum.splits)
next
  assume n: "get_normals m key_blocks a ob es = Inr (normals, morph_normals)"
  show "get_normals (with_shape m (key_blocks ! k)) [] a ob es =
          Inr (map2 vadd normals (morph_normals ! k), [])"
    using normals_round_trip[OF assms n] .
  show "length normals = length (loops m)"
    using n
    by (auto simp: get_normals_def Let_def length_zup2yup length_apply_mat_to_all
        length_normalize_vecs length_replace_zero_normals
        split: option.splits if_splits sum.splits)
  show "length (morph_normals ! k) = length (loops m)"
    using n assms
    by (auto simp: get_normals_def Let_def length_zup2yup length_apply_mat_to_all
        length_normalize_vecs length_replace_zero_normals length_foreach_get
        split: option.splits if_splits sum.splits)
qed


lemma example_positions:
  "get_positions example_skinned_mesh [example_key_block]
     (Some (example_object ((1, 0, 0), (0, 1, 0), (0, 0, 1)))) (Some example_moved_object)
     example_settings =
   Inr ([(1, 0, 0), (2, 0, 0)], [[(0, 2, 0), (0, 0, - 3)]])"
  by (simp add: get_positions_def example_inverted4 Let_def)
     (simp add: example_skinned_mesh_def example_key_block_def example_moved_object_def
       example_settings_def foreach_get_def upt_rec apply_mat_to_all_def to_3x3_def
       translation_def vec_matmul_def zup2yup_def)

lemma example_morphed_positions:
  "get_positions (with_shape example_skinned_mesh example_key_block) []
     (Some (example_object ((1, 0, 0), (0, 1, 0), (0, 0, 1)))) (Some example_moved_object)
     example_settings =
   Inr ([(1, 2, 0), (2, 0, - 3)], [])"
  by (simp add: get_positions_def example_inverted4 Let_def)
     (simp add: example_skinned_mesh_def example_key_block_def example_moved_object_def
       example_settings_def with_shape_def enumerate_eq_zip upt_rec apply_mat_to_all_def to_3x3_def
       translation_def vec_matmul_def zup2yup_def)

lemma example_normals:
  "get_normals example_skinned_mesh [example_key_block] None (Some example_moved_object)
     example_settings =
   Inr ([(0, 1, 0), (0, 1, 0)], [[(0, - 1, - 1), (0, - 1, - 1)]])"
  by (simp add: get_normals_def Let_def)
     (simp add: example_skinned_mesh_def example_key_block_def
       example_settings_def foreach_get_def upt_rec replace_zero_normals_def zup2yup_def)

theorem morph_delta_round_trip_witness:
  "(0::nat) < length [example_key_block] \<and>
   get_positions example_skinned_mesh [example_key_block]
     (Some (example_object ((1, 0, 0), (0, 1, 0), (0, 0, 1)))) (Some example_moved_object)
     example_settings =
   Inr ([(1, 0, 0), (2, 0, 0)], [[(0, 2, 0), (0, 0, - 3)]]) \<and>
   get_positions (with_shape example_skinned_mesh example_key_block) []
     (Some (example_object ((1, 0, 0), (0, 1, 0), (0, 0, 1)))) (Some example_moved_object)
     example_settings =
   Inr ([(1, 2, 0), (2, 0, - 3)], []) \<and>
   get_normals example_skinned_mesh [example_key_block] None (Some example_moved_object)
     example_settings =
   Inr ([(0, 1, 0), (0, 1, 0)], [[(0, - 1, - 1), (0, - 1, - 1)]]) \<and>
   get_normals (with_shape example_skinned_mesh example_key_block) [] None
     (Some example_moved_object) example_settings =
   Inr ([(0, 0, - 1), (0, 0, - 1)], [])"
proof -
  have k: "(0::nat) < length [example_key_block]" by simp
  have n: "get_normals (with_shape example_skinned_mesh example_key_block) [] None
     (Some example_moved_object) example_settings =
     Inr (map2 vadd [(0, 1, 0), (0, 1, 0)] ([[(0, - 1, - 1), (0, - 1, - 1)]] ! 0), [])"
    using morph_delta_round_trip[OF k, where m = example_skinned_mesh and a = None
        and ob = "Some example_moved_object" and es = example_settings
        and normals = "[(0, 1, 0), (0, 1, 0)]"
        and morph_normals = "[[(0, - 1, - 1), (0, - 1, - 1)]]"] example_normals
    by simp
  show ?thesis
    using k n example_positions example_morphed_positions example_normals by simp
qed


section \<open>Buckets, attribute arrays and the loop over the primitives\<close>

lemma create_primitives_mem:
  "create_primitives body bs = Inr prims \<Longrightarrow> p \<in> set prims \<Longrightarrow>
   \<exists>b \<in> set bs. body b = Inr (Some p)"
proof (induction bs arbitrary: prims)
  case Nil
  then show ?case by simp
next
  case (Cons b bs)
  from Cons.prems(1) obtain r rest where r: "body b = Inr r"
    and rest: "create_primitives body bs = Inr rest"
    and prims: "prims = (case r of None \<Rightarrow> [] | Some q \<Rightarrow> [q]) @ rest"
    by (auto split: sum.splits)
  show ?case
  proof (cases "p \<in> set rest")
    case True
    from Cons.IH[OF rest True] show ?thesis by auto
  next
    case False
    then have "r = Some p"
      using Cons.prems(2) prims by (cases r) auto
    then show ?thesis using r by simp
  qed
qed

lemma create_primitives_all:
  "create_primitives body bs = Inr prims \<Longrightarrow> \<forall>b \<in> set bs. body b \<noteq> Inr None \<Longrightarrow>
   list_all2 (\<lambda>b p. body b = Inr (Some p)) bs prims"
proof (induction bs arbitrary: prims)
  case Nil
  then show ?case by simp
next
  case (Cons b bs)
  from Cons.prems(1) obtain r rest where r: "body b = Inr r"
    and rest: "create_primitives body bs = Inr rest"
    and prims: "prims = (case r of None \<Rightarrow> [] | Some q \<Rightarrow> [q]) @ rest"
    by (auto split: sum.splits)
  from Cons.prems(2) r obtain q where q: "r = Some q"
    by (cases r) auto
  have "list_all2 (\<lambda>b p. body b = Inr (Some p)) bs rest"
    using Cons.IH[OF rest] Cons.prems(2) by simp
  then show ?case
    using r q prims by simp
qed

lemma create_primitives_none:
  "\<forall>b \<in> set bs. body b = Inr None \<Longrightarrow> create_primitives body bs = Inr []"
  by (induction bs) simp_all

lemma length_triangle_loop_indices:
  "length (triangle_loop_indices tris) = 3 * length tris"
  by (induction tris) (auto simp: triangle_loop_indices_def split: prod.splits)

lemma mask_eq_Cons3:
  "mask_eq (triangle_loop_indices (t # tris))
       (np_repeat3 (material_index t # map material_index tris)) k =
     (if material_index t = k then (case tri_loops t of (a, b, c) \<Rightarrow> [a, b, c]) else []) @
     mask_eq (triangle_loop_indices tris) (np_repeat3 (map material_index tris)) k"
  by (cases "tri_loops t") (simp add: mask_eq_def triangle_loop_indices_def np_repeat3_def)

lemma length_mask_eq:
  "length (mask_eq (triangle_loop_indices tris) (np_repeat3 (map material_index tris)) k) =
     3 * length (filter (\<lambda>t. material_index t = k) tris)"
proof (induction tris)
  case Nil
  show ?case by (simp add: mask_eq_def triangle_loop_indices_def np_repeat3_def)
next
  case (Cons t tris)
  show ?case
    using Cons.IH by (cases "tri_loops t") (simp add: mask_eq_Cons3)
qed

lemma concat_filter_keys_skip:
  "snd z \<notin> set us \<Longrightarrow>
   concat (map (\<lambda>k. map fst (filter (\<lambda>p. snd p = k) (z # zs))) us) =
   concat (map (\<lambda>k. map fst (filter (\<lambda>p. snd p = k) zs)) us)"
  by (induction us) auto

lemma mset_filter_keys_Cons:
  "distinct us \<Longrightarrow> snd z \<in> set us \<Longrightarrow>
   mset (concat (map (\<lambda>k. map fst (filter (\<lambda>p. snd p = k) (z # zs))) us)) =
   {#fst z#} + mset (concat (map (\<lambda>k. map fst (filter (\<lambda>p. snd p = k) zs)) us))"
proof (induction us)
  case Nil
  then show ?case by simp
next
  case (Cons u us)
  let ?F = "\<lambda>k. map fst (filter (\<lambda>p. snd p = k) (z # zs))"
  let ?G = "\<lambda>k. map fst (filter (\<lambda>p. snd p = k) zs)"
  have split: "mset (concat (map ?F (u # us))) = mset (?F u) + mset (concat (map ?F us))"
    by (simp only: list.map concat.simps mset_append)
  have splitG: "mset (concat (map ?G (u # us))) = mset (?G u) + mset (concat (map ?G us))"
    by (simp only: list.map concat.simps mset_append)
  show ?case
  proof (cases "snd z = u")
    case True
    then have notin: "snd z \<notin> set us" using Cons.prems(1) by auto
    have a: "concat (map ?F us) = concat (map ?G us)"
      by (rule concat_filter_keys_skip[OF notin])
    have b: "mset (?F u) = {#fst z#} + mset (?G u)" using True by simp
    show ?thesis
      unfolding split splitG a b by simp
  next
    case False
    then have "snd z \<in> set us" using Cons.prems(2) by simp
    from Cons.IH[OF _ this] Cons.prems(1)
    have ih: "mset (concat (map ?F us)) = {#fst z#} + mset (concat (map ?G us))" by simp
    have b: "?F u = ?G u" using False by simp
    show ?thesis
      unfolding split splitG ih b by simp
  qed
qed

lemma mset_filter_keys:
  "distinct us \<Longrightarrow> snd ` set zs \<subseteq> set us \<Longrightarrow>
   mset (concat (map (\<lambda>k. map fst (filter (\<lambda>p. snd p = k) zs)) us)) = mset (map fst zs)"
proof (induction zs)
  case Nil
  show ?case by (induction us) simp_all
next
  case (Cons z zs)
  have "snd z \<in> set us" using Cons.prems(2) by auto
  from mset_filter_keys_Cons[OF Cons.prems(1) this, of zs]
  show ?case
    using Cons.IH[OF Cons.prems(1)] Cons.prems(2) by simp
qed

lemma mset_mask_eq:
  assumes "distinct us" and "set keys \<subseteq> set us" and "length a = length keys"
  shows "mset (concat (map (\<lambda>k. mask_eq a keys k) us)) = mset a"
proof -
  have "snd ` set (zip a keys) \<subseteq> set us"
    using assms(2) by (auto dest: set_zip_rightD)
  from mset_filter_keys[OF assms(1) this]
  show ?thesis
    using assms(3) by (simp add: mask_eq_def)
qed

lemma length_np_repeat3: "length (np_repeat3 xs) = 3 * length xs"
  by (induction xs) (simp_all add: np_repeat3_def)

lemma set_np_repeat3: "set (np_repeat3 xs) = set xs"
  by (induction xs) (auto simp: np_repeat3_def)

lemma mset_prim_indices:
  "mset (concat (map snd (prim_indices use_materials tris))) = mset (triangle_loop_indices tris)"
proof (cases "use_materials = NONE")
  case True
  then show ?thesis by (simp add: prim_indices_def)
next
  case False
  have "mset (concat (map (\<lambda>k. mask_eq (triangle_loop_indices tris)
                (np_repeat3 (map material_index tris)) k)
              (np_unique (map material_index tris)))) = mset (triangle_loop_indices tris)"
    by (rule mset_mask_eq)
       (simp_all add: distinct_np_unique set_np_unique set_np_repeat3 length_np_repeat3
         length_triangle_loop_indices)
  then show ?thesis
    using False by (simp add: prim_indices_def Let_def comp_def)
qed

lemma prim_indices_keys:
  "use_materials \<noteq> NONE \<Longrightarrow>
   map fst (prim_indices use_materials tris) = map int (np_unique (map material_index tris))"
  by (simp add: prim_indices_def Let_def comp_def)

lemma prim_indices_length_mod3:
  assumes "b \<in> set (prim_indices use_materials tris)"
  shows "length (snd b) mod 3 = 0"
  using assms
  by (auto simp: prim_indices_def Let_def length_triangle_loop_indices length_mask_eq
      split: if_splits)

lemma prim_indices_nonempty:
  assumes "use_materials \<noteq> NONE" and "b \<in> set (prim_indices use_materials tris)"
  shows "snd b \<noteq> []"
proof -
  from assms have "\<exists>k. k \<in> set (map material_index tris) \<and>
      snd b = mask_eq (triangle_loop_indices tris) (np_repeat3 (map material_index tris)) k"
    by (auto simp: prim_indices_def Let_def set_np_unique)
  then obtain k where k: "k \<in> set (map material_index tris)"
    and b: "snd b = mask_eq (triangle_loop_indices tris) (np_repeat3 (map material_index tris)) k"
    by blast
  from k have "filter (\<lambda>t. material_index t = k) tris \<noteq> []"
    by (auto simp: filter_empty_conv)
  then have "0 < length (snd b)"
    unfolding b length_mask_eq by simp
  then show ?thesis by simp
qed


lemma set_update_subset: "set (AList.update k v al) \<subseteq> insert (k, v) (set al)"
  by (induction al) auto

lemma set_fold_update_subset:
  "set (fold (\<lambda>(k, v) d. AList.update k v d) kvs al) \<subseteq> set kvs \<union> set al"
proof (induction kvs arbitrary: al)
  case Nil
  show ?case by simp
next
  case (Cons kv kvs)
  obtain k v where kv: "kv = (k, v)" by (cases kv)
  have "set (fold (\<lambda>(k, v) d. AList.update k v d) kvs (AList.update k v al))
          \<subseteq> set kvs \<union> set (AList.update k v al)"
    by (rule Cons.IH)
  also have "\<dots> \<subseteq> set kvs \<union> insert (k, v) (set al)"
    using set_update_subset[of k v al] by auto
  finally show ?case by (auto simp: kv)
qed

lemma set_assign_all: "set (assign_all kvs) \<subseteq> set kvs"
  using set_fold_update_subset[of kvs "[]"] by (simp add: assign_all_def)

lemma map_of_fold_update:
  "map_of (fold (\<lambda>(k, v) d. AList.update k v d) kvs al) = map_of (rev kvs @ al)"
proof (induction kvs arbitrary: al)
  case Nil
  show ?case by simp
next
  case (Cons kv kvs)
  obtain k v where kv: "kv = (k, v)" by (cases kv)
  have "map_of (fold (\<lambda>(k, v) d. AList.update k v d) kvs (AList.update k v al)) =
        map_of (rev kvs @ AList.update k v al)"
    by (rule Cons.IH)
  also have "\<dots> = map_of (rev kvs @ (k, v) # al)"
    by (simp add: update_conv')
  finally show ?case by (simp add: kv)
qed

lemma map_of_assign_all_first:
  assumes "k \<notin> fst ` set rest"
  shows "map_of (assign_all ((k, v) # rest)) k = Some v"
proof -
  have "map_of (rev rest) k = None"
    using assms by (simp add: map_of_eq_None_iff)
  then show ?thesis
    by (simp add: assign_all_def map_of_fold_update map_add_def)
qed

lemma collect_Inr:
  "collect rs = Inr xs \<Longrightarrow> list_all2 (\<lambda>r x. r = Inr x) rs xs"
proof (induction rs arbitrary: xs)
  case Nil
  then show ?case by simp
next
  case (Cons r rs)
  from Cons.prems obtain y ys where "r = Inr y" "collect rs = Inr ys" "xs = y # ys"
    by (auto split: sum.splits)
  then show ?case using Cons.IH by simp
qed

lemma collect_take_rows_length:
  assumes "collect (map (\<lambda>x. take_rows (f x) idxs) xs) = Inr rows" and "r \<in> set rows"
  shows "length r = length idxs"
proof -
  from collect_Inr[OF assms(1)]
  have l2: "list_all2 (\<lambda>r x. r = Inr x) (map (\<lambda>x. take_rows (f x) idxs) xs) rows" .
  from assms(2) obtain i where i: "i < length rows" "rows ! i = r"
    by (auto simp: in_set_conv_nth)
  have "length rows = length xs"
    using list_all2_lengthD[OF l2] by simp
  with l2 i have "take_rows (f (xs ! i)) idxs = Inr r"
    by (auto simp: list_all2_conv_all_nth)
  from take_rows_Inr[OF this] show ?thesis by simp
qed

lemma length_calc_morph_tangents:
  "length (calc_morph_tangents mu normals ns tangents) = length normals"
  by (simp add: calc_morph_tangents_def)

lemma pack_bones_lengths:
  assumes "pack_bones vert_bones njs idxs = Inr packed" and "jws \<in> set packed"
  shows "length jws = 4 * length idxs"
proof -
  from assms(1) obtain per_vertex where tr: "take_rows vert_bones idxs = Inr per_vertex"
    and pd: "packed = map (\<lambda>k. concat (map (\<lambda>bones. map (bone_slot bones) [4 * k ..< 4 * k + 4])
                                           per_vertex)) [0..<njs]"
    by (auto simp: pack_bones_def split: sum.splits)
  from assms(2) pd obtain k
    where "jws = concat (map (\<lambda>bones. map (bone_slot bones) [4 * k ..< 4 * k + 4]) per_vertex)"
    by auto
  then have "length jws = 4 * length per_vertex"
    by (simp only: length_concat_blocks)
  then show ?thesis
    using take_rows_Inr[OF tr] by simp
qed

lemma describes_assignments:
  assumes "length position = n" and "length prim_dots = n"
    and "\<forall>vs \<in> set morph_positions. length vs = n"
    and "\<forall>jws \<in> set packed. length jws = 4 * n"
    and "\<forall>ws \<in> snd ` set vgw. length ws = n"
    and "kv \<in> set (attribute_assignments mu fl nkb prim_dots position morph_positions packed vgw)"
  shows "describes (snd kv) n"
  using assms
  by (auto simp: attribute_assignments_def Let_def length_calc_morph_tangents
      in_set_enumerate_eq split: if_splits)

lemma position_assigned_once:
  "\<exists>rest. attribute_assignments mu fl nkb prim_dots position morph_positions packed vgw =
            (POSITION, Vec3s position) # rest \<and> POSITION \<notin> fst ` set rest"
  by (auto simp: attribute_assignments_def Let_def)


lemma make_attributes_Inr:
  assumes "make_attributes mu fl nkb locs morph_locs bone_data extra prim_dots = Inr attrs"
  shows "(\<exists>position. map_of attrs POSITION = Some (Vec3s position) \<and>
            length position = length prim_dots) \<and>
         (\<forall>kv \<in> set attrs. describes (snd kv) (length prim_dots))"
proof -
  let ?idx = "map dot_vertex_index prim_dots"
  from assms obtain position morph_positions packed vg_weights
    where p: "take_rows locs ?idx = Inr position"
      and mp: "collect (map (\<lambda>vs. take_rows vs ?idx) morph_locs) = Inr morph_positions"
      and pk: "(case bone_data of None \<Rightarrow> Inr []
                | Some (vert_bones, num_joint_sets) \<Rightarrow>
                    pack_bones vert_bones num_joint_sets ?idx) = Inr packed"
      and vg: "collect (map (\<lambda>(vgroup_name, weights). take_rows weights ?idx) extra) =
                 Inr vg_weights"
      and a: "attrs = assign_all (attribute_assignments mu fl nkb prim_dots position
                morph_positions packed (zip (map fst extra) vg_weights))"
    by (auto simp: make_attributes_def Let_def split: sum.splits)
  have lp: "length position = length prim_dots"
    using take_rows_Inr[OF p] by simp
  have lm: "\<forall>vs \<in> set morph_positions. length vs = length prim_dots"
    using collect_take_rows_length[OF mp] by simp
  have lk: "\<forall>jws \<in> set packed. length jws = 4 * length prim_dots"
  proof (cases bone_data)
    case None
    then show ?thesis using pk by simp
  next
    case (Some bd)
    obtain vert_bones njs where bd: "bd = (vert_bones, njs)" by (cases bd)
    have "pack_bones vert_bones njs ?idx = Inr packed"
      using pk Some bd by simp
    from pack_bones_lengths[OF this] show ?thesis by simp
  qed
  have vg': "collect (map (\<lambda>x. take_rows (snd x) ?idx) extra) = Inr vg_weights"
    using vg by (simp add: case_prod_unfold)
  have lv: "\<forall>ws \<in> snd ` set (zip (map fst extra) vg_weights). length ws = length prim_dots"
    using collect_take_rows_length[OF vg'] by (auto dest: set_zip_rightD)
  have d: "\<forall>kv \<in> set attrs. describes (snd kv) (length prim_dots)"
  proof
    fix kv assume "kv \<in> set attrs"
    then have "kv \<in> set (attribute_assignments mu fl nkb prim_dots position
                morph_positions packed (zip (map fst extra) vg_weights))"
      using set_assign_all a by blast
    from describes_assignments[OF lp refl lm lk lv this]
    show "describes (snd kv) (length prim_dots)" .
  qed
  obtain rest where r: "attribute_assignments mu fl nkb prim_dots position
                morph_positions packed (zip (map fst extra) vg_weights) =
            (POSITION, Vec3s position) # rest" "POSITION \<notin> fst ` set rest"
    using position_assigned_once by blast
  have "map_of attrs POSITION = Some (Vec3s position)"
    unfolding a r(1) by (rule map_of_assign_all_first[OF r(2)])
  then show ?thesis using lp d by blast
qed

lemma make_primitive_Some:
  assumes "make_primitive mu fl nkb locs morph_locs bone_data extra dots b = Inr (Some p)"
  shows "\<exists>prim_dots. dedup_bucket dots (snd b) = Inr (prim_dots, indices p) \<and> prim_dots \<noteq> [] \<and>
           make_attributes mu fl nkb locs morph_locs bone_data extra prim_dots =
             Inr (attributes p) \<and>
           material p = fst b"
  using assms
  by (cases b) (auto simp: make_primitive_def split: sum.splits if_splits prod.splits)

lemma make_primitive_None:
  assumes "make_primitive mu fl nkb locs morph_locs bone_data extra dots b = Inr None"
  shows "snd b = []"
proof -
  from assms obtain prim_dots idx where d: "dedup_bucket dots (snd b) = Inr (prim_dots, idx)"
    and e: "prim_dots = []"
    by (cases b) (auto simp: make_primitive_def split: sum.splits if_splits prod.splits)
  from dedup_bucket_Inr(1)[OF d] e have "set (map (\<lambda>c. dots ! c) (snd b)) = {}"
    by (metis set_np_unique set_empty)
  then show ?thesis by simp
qed

lemma make_primitive_empty:
  "make_primitive mu fl nkb locs morph_locs bone_data extra dots (material_idx, []) = Inr None"
  by (simp add: make_primitive_def dedup_bucket_def take_rows_def np_unique_inverse_def
      np_unique_def)

lemma dedup_bucket_indices:
  assumes "dedup_bucket dots dot_indices = Inr (prim_dots, idx)"
  shows "\<forall>i \<in> set idx. i < length prim_dots"
    and "length idx = length dot_indices"
    and "map (\<lambda>j. prim_dots ! j) idx = map (\<lambda>c. dots ! c) dot_indices"
proof -
  have u: "prim_dots = np_unique (map (\<lambda>c. dots ! c) dot_indices)"
    and i: "idx = map (\<lambda>c. index_of (dots ! c) prim_dots) dot_indices"
    using dedup_bucket_Inr[OF assms] by simp_all
  have mem: "dots ! c \<in> set prim_dots" if "c \<in> set dot_indices" for c
    using that by (simp add: u set_np_unique)
  show "\<forall>i \<in> set idx. i < length prim_dots"
    using mem by (auto simp: i intro: index_of_less)
  show "length idx = length dot_indices"
    by (simp add: i)
  show "map (\<lambda>j. prim_dots ! j) idx = map (\<lambda>c. dots ! c) dot_indices"
    using mem by (simp add: i nth_index_of)
qed

lemma extract_primitives_Inr:
  assumes "extract_primitives mu gs m ob vgs mods es = Inr prims"
  shows "\<exists>locs morph_locs bone_data extra dots.
           sample_dots mu m (active_flags m es) (active_key_blocks m es)
             (fst (resolve_skin gs ob vgs mods es)) ob es = Inr dots \<and>
           create_primitives
             (make_primitive mu (active_flags m es) (length (active_key_blocks m es)) locs
                morph_locs bone_data extra dots)
             (prim_indices (MATERIALS es) (loop_triangles m)) = Inr prims"
  using assms
  by (auto simp: extract_primitives_def Let_def split: sum.splits prod.splits)

text \<open>
  Claim C3 (index validity). Every primitive that \<^verbatim>\<open>extract_primitives\<close> returns has a
  \<^verbatim>\<open>POSITION\<close> array with at least one vertex; every entry of its index buffer is less
  than the number of these vertices; every attribute array of the primitive describes
  that many vertices (\<^verbatim>\<open>JOINTS_i\<close> and \<^verbatim>\<open>WEIGHTS_i\<close> with four scalars for each); and
  the length of the index buffer is a multiple of 3.
\<close>

theorem index_validity:
  assumes "extract_primitives mu gs m ob vgs mods es = Inr prims" and "p \<in> set prims"
  shows "\<exists>position. map_of (attributes p) POSITION = Some (Vec3s position) \<and>
           position \<noteq> [] \<and>
           (\<forall>i \<in> set (indices p). i < length position) \<and>
           (\<forall>kv \<in> set (attributes p). describes (snd kv) (length position)) \<and>
           length (indices p) mod 3 = 0"
proof -
  from extract_primitives_Inr[OF assms(1)] obtain locs morph_locs bone_data extra dots
    where cp: "create_primitives
             (make_primitive mu (active_flags m es) (length (active_key_blocks m es)) locs
                morph_locs bone_data extra dots)
             (prim_indices (MATERIALS es) (loop_triangles m)) = Inr prims"
    by blast
  from create_primitives_mem[OF cp assms(2)] obtain b
    where b: "b \<in> set (prim_indices (MATERIALS es) (loop_triangles m))"
      and mk: "make_primitive mu (active_flags m es) (length (active_key_blocks m es)) locs
                morph_locs bone_data extra dots b = Inr (Some p)"
    by blast
  from make_primitive_Some[OF mk] obtain prim_dots
    where d: "dedup_bucket dots (snd b) = Inr (prim_dots, indices p)"
      and ne: "prim_dots \<noteq> []"
      and ma: "make_attributes mu (active_flags m es) (length (active_key_blocks m es)) locs
                 morph_locs bone_data extra prim_dots = Inr (attributes p)"
    by blast
  from make_attributes_Inr[OF ma] obtain position
    where pos: "map_of (attributes p) POSITION = Some (Vec3s position)"
      and lp: "length position = length prim_dots"
      and ds: "\<forall>kv \<in> set (attributes p). describes (snd kv) (length prim_dots)"
    by blast
  have i1: "\<forall>i \<in> set (indices p). i < length position"
    using dedup_bucket_indices(1)[OF d] lp by simp
  have i3: "length (indices p) mod 3 = 0"
    using dedup_bucket_indices(2)[OF d] prim_indices_length_mod3[OF b] by simp
  have "position \<noteq> []" using ne lp by auto
  then show ?thesis
    using pos i1 i3 ds lp by auto
qed


lemma list_all2_map_eq:
  "list_all2 (\<lambda>b p. f p = g b) bs ps \<Longrightarrow> map f ps = map g bs"
  by (induction bs ps rule: list_all2_induct) simp_all

lemma list_all2_mono_set:
  "list_all2 P xs ys \<Longrightarrow> (\<And>x y. x \<in> set xs \<Longrightarrow> P x y \<Longrightarrow> Q x y) \<Longrightarrow> list_all2 Q xs ys"
  by (induction xs ys rule: list_all2_induct) auto

lemma sorted_wrt_map_int: "sorted_wrt (<) xs \<Longrightarrow> sorted_wrt (<) (map int xs)"
  by (simp add: sorted_wrt_map)

text \<open>
  Claim C4 (partition completeness). When materials are exported, the buckets are keyed
  by the distinct material indices of the triangles in ascending order, and there is
  exactly one primitive for each bucket, in that order, none of them empty. The corners
  of all buckets together are the corners of all triangles, each as often as the
  triangles name it, and the index buffer of a primitive maps corner by corner to the
  records of the corners of its bucket.
\<close>

theorem partition_completeness:
  assumes "MATERIALS es \<noteq> NONE"
    and "extract_primitives mu gs m ob vgs mods es = Inr prims"
  shows "\<exists>dots.
           sample_dots mu m (active_flags m es) (active_key_blocks m es)
             (fst (resolve_skin gs ob vgs mods es)) ob es = Inr dots \<and>
           list_all2
             (\<lambda>b p. material p = fst b \<and> snd b \<noteq> [] \<and>
                (\<exists>prim_dots. dedup_bucket dots (snd b) = Inr (prim_dots, indices p) \<and>
                   map (\<lambda>j. prim_dots ! j) (indices p) = map (\<lambda>c. dots ! c) (snd b)))
             (prim_indices (MATERIALS es) (loop_triangles m)) prims \<and>
           mset (concat (map snd (prim_indices (MATERIALS es) (loop_triangles m)))) =
             mset (triangle_loop_indices (loop_triangles m)) \<and>
           map material prims =
             map int (sorted_list_of_set (material_index ` set (loop_triangles m))) \<and>
           sorted_wrt (<) (map material prims)"
proof -
  let ?buckets = "prim_indices (MATERIALS es) (loop_triangles m)"
  from extract_primitives_Inr[OF assms(2)] obtain locs morph_locs bone_data extra dots
    where sd: "sample_dots mu m (active_flags m es) (active_key_blocks m es)
             (fst (resolve_skin gs ob vgs mods es)) ob es = Inr dots"
      and cp: "create_primitives
             (make_primitive mu (active_flags m es) (length (active_key_blocks m es)) locs
                morph_locs bone_data extra dots) ?buckets = Inr prims"
    by blast
  let ?body = "make_primitive mu (active_flags m es) (length (active_key_blocks m es)) locs
                morph_locs bone_data extra dots"
  have ne: "snd b \<noteq> []" if "b \<in> set ?buckets" for b
    using prim_indices_nonempty[OF assms(1) that] .
  have "\<forall>b \<in> set ?buckets. ?body b \<noteq> Inr None"
    using ne make_primitive_None by blast
  from create_primitives_all[OF cp this]
  have l2: "list_all2 (\<lambda>b p. ?body b = Inr (Some p)) ?buckets prims" .
  have step: "material p = fst b \<and> snd b \<noteq> [] \<and>
                (\<exists>prim_dots. dedup_bucket dots (snd b) = Inr (prim_dots, indices p) \<and>
                   map (\<lambda>j. prim_dots ! j) (indices p) = map (\<lambda>c. dots ! c) (snd b))"
    if bin: "b \<in> set ?buckets" and mk: "?body b = Inr (Some p)" for b p
  proof -
    from make_primitive_Some[OF mk] obtain prim_dots
      where d: "dedup_bucket dots (snd b) = Inr (prim_dots, indices p)"
        and mt: "material p = fst b"
      by blast
    from dedup_bucket_indices(3)[OF d] d mt ne[OF bin] show ?thesis by blast
  qed
  have rel: "list_all2
             (\<lambda>b p. material p = fst b \<and> snd b \<noteq> [] \<and>
                (\<exists>prim_dots. dedup_bucket dots (snd b) = Inr (prim_dots, indices p) \<and>
                   map (\<lambda>j. prim_dots ! j) (indices p) = map (\<lambda>c. dots ! c) (snd b)))
             ?buckets prims"
    using l2 by (rule list_all2_mono_set) (rule step)
  have "list_all2 (\<lambda>b p. material p = fst b) ?buckets prims"
    using rel by (rule list_all2_mono) simp
  then have "map material prims = map fst ?buckets"
    by (rule list_all2_map_eq)
  then have keys: "map material prims =
      map int (sorted_list_of_set (material_index ` set (loop_triangles m)))"
    using prim_indices_keys[OF assms(1), of "loop_triangles m"]
    by (simp add: np_unique_sorted_list_of_set)
  have "sorted_wrt (<) (sorted_list_of_set (material_index ` set (loop_triangles m)))"
    by simp
  then have srt: "sorted_wrt (<) (map material prims)"
    unfolding keys by (rule sorted_wrt_map_int)
  show ?thesis
    using sd rel mset_prim_indices keys srt by blast
qed


lemma get_positions_defined:
  "rebasing_defined a ob \<Longrightarrow> \<exists>locs morph_locs. get_positions m kbs a ob es = Inr (locs, morph_locs)"
  by (auto simp: get_positions_def rebasing_defined_def Let_def split: option.splits)

lemma get_normals_defined:
  "rebasing_defined a ob \<Longrightarrow> \<exists>ns mns. get_normals m kbs a ob es = Inr (ns, mns)"
  by (auto simp: get_normals_def rebasing_defined_def Let_def split: option.splits)

lemma get_tangents_defined:
  "rebasing_defined a ob \<Longrightarrow> \<exists>ts. get_tangents mu m a ob es = Inr ts"
  by (auto simp: get_tangents_def rebasing_defined_def Let_def split: option.splits)

lemma get_bitangent_signs_defined:
  "rebasing_defined a ob \<Longrightarrow> \<exists>sg. get_bitangent_signs mu m a ob es = Inr sg"
  by (auto simp: get_bitangent_signs_def rebasing_defined_def Let_def split: option.splits)

lemma collect_defined:
  "\<forall>r \<in> set rs. \<exists>x. r = Inr x \<Longrightarrow> \<exists>xs. collect rs = Inr xs"
  by (induction rs) auto

lemma uvs_defined:
  "\<exists>uvs. collect (map (get_uvs m) [0..<tex_coord_max (active_flags m es)]) = Inr uvs"
  by (rule collect_defined) (auto simp: get_uvs_def active_flags_def Let_def)

lemma colors_defined:
  "\<exists>cs. collect (map (get_colors m) [0..<color_max (active_flags m es)]) = Inr cs"
  by (rule collect_defined) (auto simp: get_colors_def active_flags_def Let_def)

lemma fold_update_bound:
  "\<forall>x \<in> set arr. x < N \<Longrightarrow> v < N \<Longrightarrow>
   \<forall>x \<in> set (fold (\<lambda>i a. a[i := v]) idxs arr). x < (N::nat)"
proof (induction idxs arbitrary: arr)
  case Nil
  then show ?case by simp
next
  case (Cons i idxs)
  have "\<forall>x \<in> set (arr[i := v]). x < N"
    using Cons.prems set_update_subset_insert[of arr i v] by auto
  from Cons.IH[OF this Cons.prems(2)] show ?case by simp
qed

lemma fold_polygons_bound:
  "\<forall>x \<in> set arr. x < N \<Longrightarrow> \<forall>e \<in> set es. fst e < N \<Longrightarrow>
   \<forall>x \<in> set (fold (\<lambda>(polyi, poly) loop_polyidx.
                       fold (\<lambda>i a. a[i := polyi])
                            [loop_start poly ..< loop_start poly + loop_total poly]
                            loop_polyidx) es arr). x < (N::nat)"
proof (induction es arbitrary: arr)
  case Nil
  then show ?case by simp
next
  case (Cons e es)
  obtain polyi poly where e: "e = (polyi, poly)" by (cases e)
  have "polyi < N" using Cons.prems(2) e by simp
  from fold_update_bound[OF Cons.prems(1) this]
  have "\<forall>x \<in> set (fold (\<lambda>i a. a[i := polyi])
                        [loop_start poly ..< loop_start poly + loop_total poly] arr). x < N" .
  from Cons.IH[OF this] Cons.prems(2) show ?case by (simp add: e)
qed

lemma get_facemaps_defined:
  assumes "wf_mesh m" and "face_maps m \<noteq> []"
  shows "\<exists>fm. get_facemaps m = Inr fm"
proof -
  obtain f fs where f: "face_maps m = f # fs"
    using assms(2) by (cases "face_maps m") auto
  let ?n = "length (loops m)"
  let ?N = "length (polygons m)"
  let ?idx = "fold (\<lambda>(polyi, poly) loop_polyidx.
                     fold (\<lambda>i arr. arr[i := polyi])
                          [loop_start poly ..< loop_start poly + loop_total poly]
                          loop_polyidx)
                   (enumerate 0 (polygons m)) (replicate ?n 0)"
  have range: "list_all (\<lambda>poly. loop_total poly = 0 \<or> loop_start poly + loop_total poly \<le> ?n)
                 (polygons m)"
    using assms(1) by (auto simp: wf_mesh_def list_all_iff)
  have "list_all (\<lambda>i. i < ?N) ?idx"
  proof (cases "?N = 0")
    case True
    have "list_all (\<lambda>i. list_ex (\<lambda>p. loop_start p \<le> i \<and> i < loop_start p + loop_total p)
                            (polygons m)) [0..<?n]"
      using assms(1) by (simp add: wf_mesh_def)
    then have "?n = 0"
      using True by (cases "?n") (auto simp: list_all_iff list_ex_iff)
    then show ?thesis using True by simp
  next
    case False
    then have init: "\<forall>x \<in> set (replicate ?n (0::nat)). x < ?N" by auto
    have en: "\<forall>e \<in> set (enumerate 0 (polygons m)). fst e < ?N"
      by (auto simp: in_set_enumerate_eq)
    from fold_polygons_bound[OF init en] show ?thesis
      by (simp add: list_all_iff)
  qed
  then have "\<exists>fm. take_rows (foreach_get f ?N) ?idx = Inr fm"
    by (simp add: take_rows_def foreach_get_def)
  then show ?thesis
    using range by (simp add: get_facemaps_def f Let_def)
qed

lemma sample_dots_defined:
  assumes "wf_mesh m" and "rebasing_defined a ob"
  shows "\<exists>dots. sample_dots mu m (active_flags m es) kbs a ob es = Inr dots"
proof -
  let ?fl = "active_flags m es"
  obtain ns mns where n: "(if use_normals ?fl
               then get_normals m (if use_morph_normals ?fl then kbs else []) a ob es
               else Inr ([], [])) = Inr (ns, mns)"
    using get_normals_defined[OF assms(2)] by (cases "use_normals ?fl") fastforce+
  obtain ts where t: "(if use_tangents ?fl then get_tangents mu m a ob es else Inr []) = Inr ts"
    using get_tangents_defined[OF assms(2)] by (cases "use_tangents ?fl") fastforce+
  obtain sg where s: "(if use_tangents ?fl then get_bitangent_signs mu m a ob es else Inr []) = Inr sg"
    using get_bitangent_signs_defined[OF assms(2)] by (cases "use_tangents ?fl") fastforce+
  obtain uvs where u: "collect (map (get_uvs m) [0..<tex_coord_max ?fl]) = Inr uvs"
    using uvs_defined by blast
  obtain cs where c: "collect (map (get_colors m) [0..<color_max ?fl]) = Inr cs"
    using colors_defined by blast
  obtain fm where f: "(if use_facemaps ?fl then get_facemaps m else Inr []) = Inr fm"
  proof (cases "use_facemaps ?fl")
    case True
    then have "face_maps m \<noteq> []" by (simp add: active_flags_def Let_def)
    from get_facemaps_defined[OF assms(1) this] show ?thesis using True that by auto
  next
    case False
    then show ?thesis using that by simp
  qed
  show ?thesis
    by (simp add: sample_dots_def Let_def n t s u c f)
qed

lemma empty_mesh_no_triangles:
  assumes "wf_mesh m" and "vertices m = [] \<or> loop_triangles m = []"
  shows "loop_triangles m = []"
proof (cases "loop_triangles m = []")
  case True
  then show ?thesis .
next
  case False
  then have v: "vertices m = []" using assms(2) by simp
  have "list_all (\<lambda>l. vertex_index l < length (vertices m)) (loops m)"
    using assms(1) by (simp add: wf_mesh_def)
  then have l: "loops m = []"
    using v by (cases "loops m") simp_all
  have "list_all (\<lambda>t. case tri_loops t of (a, b, c) \<Rightarrow>
                      a < length (loops m) \<and> b < length (loops m) \<and> c < length (loops m))
              (loop_triangles m)"
    using assms(1) by (simp add: wf_mesh_def)
  then show ?thesis
    using l by (cases "loop_triangles m") (simp_all split: prod.splits)
qed

text \<open>
  Claim C9, as the code has it. For a well-formed mesh without vertices or without
  triangles \<^verbatim>\<open>extract_primitives\<close> returns the empty list, provided the re-basing of a
  skinned object is defined (the samplers invert the matrices before they look at the
  mesh); and a bucket without corners gives no primitive.
\<close>

theorem empty_mesh_no_primitives:
  assumes "wf_mesh m" and "vertices m = [] \<or> loop_triangles m = []"
    and "rebasing_defined (fst (resolve_skin gs ob vgs mods es)) ob"
  shows "extract_primitives mu gs m ob vgs mods es = Inr [] \<and>
         make_primitive mu fl nkb locs morph_locs bone_data extra dots (material_idx, []) =
           Inr None"
proof -
  let ?a = "fst (resolve_skin gs ob vgs mods es)"
  have tris: "loop_triangles m = []"
    using empty_mesh_no_triangles[OF assms(1,2)] .
  obtain locs' morph_locs' where gp: "get_positions m (active_key_blocks m es) ?a ob es =
      Inr (locs', morph_locs')"
    using get_positions_defined[OF assms(3)] by blast
  obtain dots' where sd: "sample_dots mu m (active_flags m es) (active_key_blocks m es) ?a ob es =
      Inr dots'"
    using sample_dots_defined[OF assms(1,3)] by blast
  have buckets: "\<forall>b \<in> set (prim_indices (MATERIALS es) (loop_triangles m)). snd b = []"
    by (auto simp: prim_indices_def tris triangle_loop_indices_def np_unique_def Let_def)
  have "create_primitives body (prim_indices (MATERIALS es) (loop_triangles m)) = Inr []"
    if "\<And>material_idx. body (material_idx, []) = Inr None" for body
  proof (rule create_primitives_none, rule ballI)
    fix b assume "b \<in> set (prim_indices (MATERIALS es) (loop_triangles m))"
    then have "snd b = []" using buckets by blast
    then show "body b = Inr None" using that[of "fst b"] by (cases b) simp
  qed
  then have "extract_primitives mu gs m ob vgs mods es = Inr []"
    by (simp add: extract_primitives_def Let_def gp sd make_primitive_empty)
  then show ?thesis
    by (simp add: make_primitive_empty)
qed


section \<open>Examples of \<^verbatim>\<open>extract_primitives\<close>\<close>

lemmas eval_defs = extract_primitives_def active_flags_def resolve_skin_def active_key_blocks_def
  get_positions_def sample_dots_def get_normals_def get_uvs_def get_colors_def foreach_get_def
  build_dots_def prim_indices_def triangle_loop_indices_def np_repeat3_def np_unique_def
  mask_eq_def make_primitive_def
  dedup_bucket_def take_rows_def np_unique_inverse_def make_attributes_def assign_all_def
  attribute_assignments_def
  get_extra_vgroups_def zup2yup_def replace_zero_normals_def dot_vertex_index_def dot_normal_def
  dot_uvs_def dot_colors_def dot_tangent_def dot_morph_normals_def dot_facemaps_def


lemma example_quad_primitives:
  "extract_primitives example_mu (\<lambda>a e. None) example_quad_mesh None [] None example_settings =
     Inr [\<lparr>attributes = [(POSITION, Vec3s [(0, 0, 0), (1, 0, - 1), (0, 0, - 1)]),
                        (NORMAL, Vec3s [(0, 1, 0), (0, 1, 0), (0, 1, 0)])],
           indices = [1, 0, 2], material = 0\<rparr>,
          \<lparr>attributes = [(POSITION, Vec3s [(0, 0, 0), (1, 0, 0), (1, 0, - 1)]),
                        (NORMAL, Vec3s [(0, 1, 0), (0, 1, 0), (0, 1, 0)])],
           indices = [2, 1, 0], material = 1\<rparr>]"
  by (simp add: eval_defs example_quad_mesh_def example_settings_def Let_def)

lemma example_quad_wf: "wf_mesh example_quad_mesh"
  by (simp add: wf_mesh_def example_quad_mesh_def upt_rec)

lemma example_empty_wf: "wf_mesh example_empty_mesh"
  by (simp add: wf_mesh_def example_empty_mesh_def)

theorem index_validity_witness:
  "extract_primitives example_mu (\<lambda>a e. None) example_quad_mesh None [] None example_settings =
     Inr [\<lparr>attributes = [(POSITION, Vec3s [(0, 0, 0), (1, 0, - 1), (0, 0, - 1)]),
                        (NORMAL, Vec3s [(0, 1, 0), (0, 1, 0), (0, 1, 0)])],
           indices = [1, 0, 2], material = 0\<rparr>,
          \<lparr>attributes = [(POSITION, Vec3s [(0, 0, 0), (1, 0, 0), (1, 0, - 1)]),
                        (NORMAL, Vec3s [(0, 1, 0), (0, 1, 0), (0, 1, 0)])],
           indices = [2, 1, 0], material = 1\<rparr>] \<and>
   (\<exists>position. map_of [(POSITION, Vec3s [(0, 0, 0), (1, 0, 0), (1, 0, - 1)]),
                         (NORMAL, Vec3s [(0, 1, 0), (0, 1, 0), (0, 1, 0)])] POSITION =
                   Some (Vec3s position) \<and>
                 length position = 3 \<and> length [2, 1, 0::nat] mod 3 = 0)"
proof -
  let ?p = "\<lparr>attributes = [(POSITION, Vec3s [(0, 0, 0), (1, 0, 0), (1, 0, - 1)]),
                        (NORMAL, Vec3s [(0, 1, 0), (0, 1, 0), (0, 1, 0)])],
           indices = [2, 1, 0], material = 1\<rparr>"
  have "\<exists>position. map_of (attributes ?p) POSITION = Some (Vec3s position) \<and>
           position \<noteq> [] \<and>
           (\<forall>i \<in> set (indices ?p). i < length position) \<and>
           (\<forall>kv \<in> set (attributes ?p). describes (snd kv) (length position)) \<and>
           length (indices ?p) mod 3 = 0"
    by (rule index_validity[OF example_quad_primitives]) simp
  then show ?thesis
    using example_quad_primitives by auto
qed

theorem partition_completeness_witness:
  "MATERIALS example_settings \<noteq> NONE \<and>
   extract_primitives example_mu (\<lambda>a e. None) example_quad_mesh None [] None example_settings =
     Inr [\<lparr>attributes = [(POSITION, Vec3s [(0, 0, 0), (1, 0, - 1), (0, 0, - 1)]),
                        (NORMAL, Vec3s [(0, 1, 0), (0, 1, 0), (0, 1, 0)])],
           indices = [1, 0, 2], material = 0\<rparr>,
          \<lparr>attributes = [(POSITION, Vec3s [(0, 0, 0), (1, 0, 0), (1, 0, - 1)]),
                        (NORMAL, Vec3s [(0, 1, 0), (0, 1, 0), (0, 1, 0)])],
           indices = [2, 1, 0], material = 1\<rparr>] \<and>
   prim_indices (MATERIALS example_settings) (loop_triangles example_quad_mesh) =
     [(0, [0, 2, 3]), (1, [0, 1, 2])] \<and>
   mset (concat (map snd [(0::int, [0, 2, 3]), (1, [0, 1, 2::nat])])) =
     mset (triangle_loop_indices (loop_triangles example_quad_mesh))"
proof -
  have m: "MATERIALS example_settings \<noteq> NONE"
    by (simp add: example_settings_def)
  have b: "prim_indices (MATERIALS example_settings) (loop_triangles example_quad_mesh) =
     [(0, [0, 2, 3]), (1, [0, 1, 2])]"
    by (simp add: prim_indices_def triangle_loop_indices_def np_repeat3_def np_unique_def
        mask_eq_def example_quad_mesh_def example_settings_def)
  from partition_completeness[OF m example_quad_primitives]
  have "mset (concat (map snd (prim_indices (MATERIALS example_settings)
                 (loop_triangles example_quad_mesh)))) =
        mset (triangle_loop_indices (loop_triangles example_quad_mesh))"
    by blast
  then show ?thesis
    using m b example_quad_primitives by simp
qed

lemma example_empty_rebasing:
  "rebasing_defined (fst (resolve_skin (\<lambda>a e. None) None [] None example_settings)) None"
  by (simp add: rebasing_defined_def resolve_skin_def)

theorem empty_mesh_no_primitives_witness:
  "wf_mesh example_empty_mesh \<and> vertices example_empty_mesh = [] \<and>
   rebasing_defined (fst (resolve_skin (\<lambda>a e. None) None [] None example_settings)) None \<and>
   extract_primitives example_mu (\<lambda>a e. None) example_empty_mesh None [] None example_settings =
     Inr []"
proof -
  have v: "vertices example_empty_mesh = [] \<or> loop_triangles example_empty_mesh = []"
    by (simp add: example_empty_mesh_def)
  from empty_mesh_no_primitives[OF example_empty_wf v example_empty_rebasing]
  have "extract_primitives example_mu (\<lambda>a e. None) example_empty_mesh None [] None
          example_settings = Inr []"
    by (rule conjunct1)
  then show ?thesis
    using example_empty_wf example_empty_rebasing by (simp add: example_empty_mesh_def)
qed

text \<open>Claim C9 as stated fails: for the mesh without vertices, skinned to an armature
  and flattened by a scale of zero along the third axis, the normal transform has no
  inverse and \<^verbatim>\<open>__get_normals\<close> raises \<^verbatim>\<open>ValueError\<close>.\<close>

theorem empty_mesh_singular_counterexample:
  "wf_mesh example_empty_mesh \<and> vertices example_empty_mesh = [] \<and>
   loop_triangles example_empty_mesh = [] \<and>
   inverted3 ((1, 0, 0), (0, 1, 0), (0, 0, 0)) = None \<and>
   extract_primitives example_mu example_gather_skin example_empty_mesh
     (Some (example_object ((1, 0, 0), (0, 1, 0), (0, 0, 0)))) [''bone'']
     (Some [example_armature_modifier]) (example_settings\<lparr>SKINS := True\<rparr>) =
   Inl ValueError"
proof (intro conjI)
  show "wf_mesh example_empty_mesh" by (rule example_empty_wf)
  show "vertices example_empty_mesh = []" by (simp add: example_empty_mesh_def)
  show "loop_triangles example_empty_mesh = []" by (simp add: example_empty_mesh_def)
  show "inverted3 ((1, 0, 0), (0, 1, 0), (0, 0, 0)) = None" by simp
  show "extract_primitives example_mu example_gather_skin example_empty_mesh
     (Some (example_object ((1, 0, 0), (0, 1, 0), (0, 0, 0)))) [''bone'']
     (Some [example_armature_modifier]) (example_settings\<lparr>SKINS := True\<rparr>) =
   Inl ValueError"
    by (simp add: extract_primitives_def resolve_skin_def example_settings_def
        example_object_def example_gather_skin_def example_armature_modifier_def Let_def
        get_positions_def inverted4_def active_key_blocks_def
        example_empty_mesh_def foreach_get_def zup2yup_def apply_mat_to_all_def
        sample_dots_def active_flags_def get_normals_def mat_vec_def mat_mul4_def mat_mul3_def
        vec_matmul_def to_3x3_def)
qed

end
